theory Spec2Isabelle
  imports Main "HOL-Library.Char_ord" "HOL-Library.List_Lexorder"
begin

section \<open>Values exchanged with the collaborators\<close>

text \<open>
  The instance of \<^verbatim>\<open>pkg/haproxy/instance.go\<close> drives a set of collaborators
  (logger, metrics, the Config model, templates, queues, the ACME signer, the leader
  elector, the admin and master sockets, two external commands). None of them is part
  of the file. Every call that has an effect on a collaborator is recorded as an
  \<open>event\<close> in the order in which the code makes it; every answer that a collaborator
  gives is a field of the records \<open>Config\<close> and \<open>world\<close> below, so the functions
  of the instance are defined for all answers the collaborators can give.
\<close>

text \<open>
  A \<^verbatim>\<open>time.Time\<close> value; two of them are equal here when Go's \<^verbatim>\<open>==\<close> on the
  struct says so.
\<close>

type_synonym time = int

text \<open>
  An error value is the format string and the arguments handed to \<^verbatim>\<open>fmt.Errorf\<close>;
  an error coming from a collaborator is an \<open>Errorf\<close> of its text without arguments.
  The same shape serves for the arguments of the logger.
\<close>

datatype err = Errorf string "arg list"
  and arg = ArgS string | ArgI int | ArgE err | ArgL "string list" | ArgT time

datatype level = Info | InfoV nat | Warn | Error

datatype event =
    Logger level string "arg list"
  | Timer_Tick string
  | Metrics_IncUpdateNoop
  | Metrics_IncUpdateDynamic
  | Metrics_IncUpdateFull
  | Metrics_UpdateSuccessful bool
  | Metrics_ClearCertExpire
  | Metrics_SetCertExpireDate string string "time option"
  | Metrics_AddIdleFactor int
  | Config_SyncConfig
  | Config_Shrink
  | Config_WriteTCPServicesMaps
  | Config_WriteFrontendMaps
  | Config_WriteBackendMaps
  | Config_Commit
  | Updater_update
  | Backends_SortChangedEndpoints string
  | Backends_ShuffleAllEndpoints
  | Backends_FillSourceIPs
  | ModsecTmpl_Write
  | HAProxyTmpl_Write
  | HAProxyTmpl_WriteOutput int string string
  | AcmeQueue_Add string
  | AcmeQueue_Remove string
  | ReloadQueue_Notify
  | Signer_AcmeConfig int
  | Signer_AcmeAccount string string bool
  | HAProxyCommand string string
  | HAProxyProcs string
  | Exec_Command string "string list"
  | Os_WriteFile string string
  | Time_After_Second

section \<open>Data model\<close>

datatype Queue = Queue

record InstanceOptions =
  AcmeQueue :: "Queue option"
  BackendShards :: int
  HAProxyCfgDir :: string
  HAProxyMapsDir :: string
  MaxOldConfigFiles :: int
  ReloadQueue :: "Queue option"
  ReloadStrategy :: string
  SortEndpointsBy :: string
  ValidateConfig :: bool
  fake :: bool

record hatypes_External =
  IsExternal :: bool
  MasterSocket :: string

record hatypes_Global =
  AdminSocket :: string
  External :: hatypes_External
  LoadServerState :: bool

record hatypes_HostTLSConfig =
  HasTLS :: bool
  TLSCommonName :: string
  TLSNotAfter :: time

record hatypes_Host =
  TLS :: hatypes_HostTLSConfig

record hatypes_AcmeStorages =
  BuildAcmeStorages :: "string list"
  BuildAcmeStoragesAdd :: "string list"
  BuildAcmeStoragesDel :: "string list"
  Updated :: bool

record hatypes_AcmeData =
  Expiring :: int
  Endpoint :: string
  Emails :: string
  TermsAgreed :: bool
  Storages :: hatypes_AcmeStorages

text \<open>
  The Config collaborator as the instance sees it during one call: the values its
  getters return and the results of its writers. A Go map is an association list, with
  distinct keys, whose order is the order in which \<^verbatim>\<open>range\<close> happens to visit it.
\<close>

record Config =
  AcmeData :: hatypes_AcmeData
  Global :: hatypes_Global
  Hosts_ItemsAdd :: "(string \<times> hatypes_Host) list"
  Hosts_ItemsDel :: "(string \<times> hatypes_Host) list"
  Hosts_HasCommit :: bool
  Backends_ItemsAdd :: "string list"
  Backends_ItemsDel :: "string list"
  Backends_ChangedShards :: "int list"
  WriteTCPServicesMaps :: "err option"
  WriteFrontendMaps :: "err option"
  WriteBackendMaps :: "err option"

text \<open>
  The answers of the other collaborators and of the operating system during one call.
  \<open>showProcWait k\<close> is the result of the \<open>k\<close>-th \<^verbatim>\<open>show proc\<close> of the first-run wait
  loop and \<open>stopCh k\<close> tells whether the stop channel wins the \<^verbatim>\<open>select\<close> after it.
  \<^verbatim>\<open>HAProxyCommand\<close> is always called with one command, and its reply slice is
  represented by the reply to that command.
\<close>

record world =
  Now :: time
  IsLeader :: bool
  LeaderName :: string
  HasAccount :: bool
  updated :: bool
  cmdCnt :: int
  modsecTmplWrite :: "err option"
  haproxyTmplWrite :: "err option"
  haproxyTmplWriteOutput :: "nat \<Rightarrow> err option"
  checkOutput :: "string \<times> err option"
  reloadOutput :: "string \<times> err option"
  showProcWait :: "nat \<Rightarrow> err option"
  stopCh :: "nat \<Rightarrow> bool"
  showServersState :: "err + string"
  writeStateFile :: "err option"
  masterReload :: "err option"
  showProcs :: "err + string list"
  showInfo :: "err + string"

record "instance" =
  up :: bool
  failedSince :: "time option"
  options :: InstanceOptions
  config :: "Config option"

text \<open>
  How a call of a method ends: it returns a value, or it panics on the nil Config. Both
  carry the fields of the instance at that moment and the events of the call. A call that
  never ends has no result: the functions that can wait forever return an \<open>option\<close>.
\<close>

datatype 'a result = Panicked "instance" "event list" | Returned 'a "instance" "event list"

section \<open>Health tracking\<close>

definition updateSuccessful :: "world \<Rightarrow> bool \<Rightarrow> instance \<Rightarrow> instance \<times> event list" where
  "updateSuccessful w success i =
     ((if success then i\<lparr>failedSince := None\<rparr>
       else if failedSince i = None then i\<lparr>failedSince := Some (Now w)\<rparr>
       else i),
      [Metrics_UpdateSuccessful success])"

section \<open>Reload strategies\<close>

definition check :: "world \<Rightarrow> instance \<Rightarrow> Config \<Rightarrow> err option \<times> event list" where
  "check w i cfg =
     (if fake (options i) then (None, [Logger Info ''(test) check was skipped'' []])
      else if IsExternal (External (Global cfg)) then (None, [])
      else
        (let (outstr, err) = checkOutput w;
             ev = Exec_Command ''haproxy'' [''-c'', ''-f'', HAProxyCfgDir (options i)]
         in if err \<noteq> None then (Some (Errorf outstr []), [ev]) else (None, [ev])))"

definition reloadEmbedded :: "world \<Rightarrow> instance \<Rightarrow> Config \<Rightarrow> err option \<times> event list" where
  "reloadEmbedded w i cfg =
     (let state = (if LoadServerState (Global cfg) then ''1'' else ''0'');
          (outstr, err) = reloadOutput w
      in (err,
          Exec_Command ''/haproxy-reload.sh''
            [ReloadStrategy (options i), HAProxyCfgDir (options i), state] #
          (if length outstr > 0
           then [Logger Warn (''output from haproxy:'' @ [CHR 0x0A] @ ''%v'') [ArgS outstr]]
           else [])))"

definition retrieveServersState :: "world \<Rightarrow> Config \<Rightarrow> (err + string) \<times> event list" where
  "retrieveServersState w cfg =
     (let socket = AdminSocket (Global cfg)
      in (case showServersState w of
            Inl e \<Rightarrow> Inl (Errorf ''failed to retrieve servers state from external haproxy; %w'' [ArgE e])
          | Inr state \<Rightarrow> Inr state,
          [HAProxyCommand socket ''show servers state'']))"

definition persistServersState :: "world \<Rightarrow> Config \<Rightarrow> err option \<times> event list" where
  "persistServersState w cfg =
     (case retrieveServersState w cfg of
        (Inl e, evs) \<Rightarrow> (Some e, evs)
      | (Inr state, evs) \<Rightarrow>
          (let stateFilePath = ''/var/lib/haproxy/state-global''
           in (case writeStateFile w of
                 Some e \<Rightarrow> Some (Errorf (''failed to persist servers state to file '' @ [CHR 0x27] @ ''%s'' @ [CHR 0x27] @ '': %w'')
                                  [ArgS stateFilePath, ArgE e])
               | None \<Rightarrow> None,
               evs @ [Os_WriteFile stateFilePath state])))"

text \<open>
  The first-run wait loop of \<^verbatim>\<open>reloadExternal\<close>. \<open>j\<close> is the counter of the source
  (a Go \<^verbatim>\<open>int\<close>, which one increment a second cannot overflow), at the same time the
  number of the attempt; \<open>evs\<close> collects the events made so far. The loop returns
  \<open>None\<close> as its error when the master socket answered, the error of the cancellation
  when the stop channel fired, and has no result when neither ever happens.
\<close>

partial_function (option) waitExternal ::
  "world \<Rightarrow> string \<Rightarrow> nat \<Rightarrow> event list \<Rightarrow> (err option \<times> event list) option" where
  "waitExternal w socket j evs =
     (case showProcWait w j of
        None \<Rightarrow> Some (None, evs @ [HAProxyCommand socket ''show proc''])
      | Some err \<Rightarrow>
          (let evs1 = evs @ [HAProxyCommand socket ''show proc''] @
                 (if (j + 1) mod 10 = 0
                  then [Logger Info (''cannot connect to the master socket '' @ [CHR 0x27] @ ''%s'' @ [CHR 0x27] @ '': %v'')
                          [ArgS socket, ArgE err]]
                  else [])
           in if stopCh w j then Some (Some (Errorf ''received sigterm'' []), evs1)
              else waitExternal w socket (j + 1) (evs1 @ [Time_After_Second])))"

declare waitExternal.simps [code]

definition reloadExternal_reload :: "world \<Rightarrow> Config \<Rightarrow> event list \<Rightarrow> err option \<times> event list" where
  "reloadExternal_reload w cfg evs =
     (let socket = MasterSocket (External (Global cfg));
          evs1 = (if LoadServerState (Global cfg)
                  then (case persistServersState w cfg of
                          (Some e, pevs) \<Rightarrow>
                            evs @ pevs @ [Logger Warn ''failed to persist servers state before worker reload: %w'' [ArgE e]]
                        | (None, pevs) \<Rightarrow> evs @ pevs)
                  else evs);
          evs2 = evs1 @ [HAProxyCommand socket ''reload'']
      in case masterReload w of
           Some e \<Rightarrow> (Some (Errorf ''error sending reload to master socket: %w'' [ArgE e]), evs2)
         | None \<Rightarrow>
             (case showProcs w of
                Inl e \<Rightarrow> (Some (Errorf ''error reading procs from master socket: %w'' [ArgE e]),
                          evs2 @ [HAProxyProcs socket])
              | Inr workers \<Rightarrow>
                  if length workers = 0
                  then (Some (Errorf ''external haproxy was not successfully reloaded'' []),
                        evs2 @ [HAProxyProcs socket])
                  else (None, evs2 @ [HAProxyProcs socket])))"

definition reloadExternal :: "world \<Rightarrow> instance \<Rightarrow> Config \<Rightarrow> (err option \<times> event list) option" where
  "reloadExternal w i cfg =
     (let socket = MasterSocket (External (Global cfg))
      in if \<not> up i
         then (case waitExternal w socket 0 [Logger Info ''waiting for the external haproxy...'' []] of
                 None \<Rightarrow> None
               | Some (Some e, evs) \<Rightarrow> Some (Some e, evs)
               | Some (None, evs) \<Rightarrow> Some (reloadExternal_reload w cfg evs))
         else Some (reloadExternal_reload w cfg []))"

definition reloadHAProxy :: "world \<Rightarrow> instance \<Rightarrow> (err option) result option" where
  "reloadHAProxy w i =
     (if fake (options i) then Some (Returned None i [Logger Info ''(test) reload was skipped'' []])
      else (case config i of
              None \<Rightarrow> Some (Panicked i [])
            | Some cfg \<Rightarrow>
                if IsExternal (External (Global cfg))
                then (case reloadExternal w i cfg of
                        None \<Rightarrow> None
                      | Some (e, evs) \<Rightarrow> Some (Returned e i evs))
                else (case reloadEmbedded w i cfg of (e, evs) \<Rightarrow> Some (Returned e i evs))))"

definition Reload :: "world \<Rightarrow> instance \<Rightarrow> unit result option" where
  "Reload w i =
     (case reloadHAProxy w i of
        None \<Rightarrow> None
      | Some (Panicked i1 evs) \<Rightarrow> Some (Panicked i1 (Metrics_IncUpdateFull # evs))
      | Some (Returned err i1 evs) \<Rightarrow>
          (let evs1 = Metrics_IncUpdateFull # evs @ [Timer_Tick ''reload_haproxy'']
           in case err of
                Some e \<Rightarrow>
                  (case updateSuccessful w False i1 of
                     (i2, uevs) \<Rightarrow>
                       Some (Returned () i2
                         (evs1 @ [Logger Error (''error reloading server:'' @ [CHR 0x0A] @ ''%v'') [ArgE e]] @ uevs)))
              | None \<Rightarrow>
                  (case updateSuccessful w True (i1\<lparr>up := True\<rparr>) of
                     (i2, uevs) \<Rightarrow>
                       (case config i2 of
                          None \<Rightarrow> Some (Panicked i2 (evs1 @ uevs))
                        | Some cfg \<Rightarrow>
                            Some (Returned () i2
                              (evs1 @ uevs @
                               [if IsExternal (External (Global cfg))
                                then Logger Info ''haproxy successfully reloaded (external)'' []
                                else Logger Info ''haproxy successfully reloaded (embedded)'' []]))))))"

section \<open>ACME scheduler\<close>

fun strings_Split_comma :: "string \<Rightarrow> string list" where
  "strings_Split_comma [] = [[]]"
| "strings_Split_comma (c # cs) =
     (if c = CHR '','' then [] # strings_Split_comma cs
      else (case strings_Split_comma cs of
              [] \<Rightarrow> [[c]]
            | x # xs \<Rightarrow> (c # x) # xs))"

fun strings_Join :: "string list \<Rightarrow> string \<Rightarrow> string" where
  "strings_Join [] sep = []"
| "strings_Join [x] sep = x"
| "strings_Join (x # y # ys) sep = x @ sep @ strings_Join (y # ys) sep"

definition acmeEnsureConfig :: "world \<Rightarrow> hatypes_AcmeData \<Rightarrow> bool \<times> event list" where
  "acmeEnsureConfig w acmeConfig =
     (HasAccount w,
      [Signer_AcmeConfig (Expiring acmeConfig),
       Signer_AcmeAccount (Endpoint acmeConfig) (Emails acmeConfig) (TermsAgreed acmeConfig)])"

text \<open>Both callers have checked that the ACME queue is configured.\<close>

definition acmeAddStorage :: "string \<Rightarrow> event list" where
  "acmeAddStorage storage =
     (let items = strings_Split_comma storage
      in (if length items \<ge> 2
          then [Logger (InfoV 3)
                  ''enqueue certificate for processing: storage=%s domain(s)=%s preferred-chain=%s''
                  [ArgS (items ! 0), ArgS (strings_Join (drop 2 items) '',''), ArgS (items ! 1)]]
          else []) @
         [AcmeQueue_Add storage])"

definition acmeRemoveStorage :: "string \<Rightarrow> event list" where
  "acmeRemoveStorage storage = [AcmeQueue_Remove storage]"

text \<open>
  The message of a check skipped for want of leadership is rendered by
  \<^verbatim>\<open>fmt.Sprintf\<close> (the verb \<^verbatim>\<open>%s\<close> puts the name of the leader as it is), and the
  rendered text is then the format, without arguments, of both \<^verbatim>\<open>logger.Info\<close> and
  \<^verbatim>\<open>fmt.Errorf\<close>.
\<close>

definition Sprintf_skipping :: "string \<Rightarrow> string" where
  "Sprintf_skipping leader = ''skipping acme periodic check, leader is '' @ leader"

definition AcmeCheck :: "world \<Rightarrow> string \<Rightarrow> instance \<Rightarrow> (int \<times> err option) result" where
  "AcmeCheck w source i =
     (if \<not> up i then Returned (0, Some (Errorf ''controller wasn't started yet'' [])) i []
      else if AcmeQueue (options i) = None
      then Returned (0, Some (Errorf ''Acme queue wasn't configured'' [])) i []
      else (case config i of
              None \<Rightarrow> Panicked i []
            | Some cfg \<Rightarrow>
                (case acmeEnsureConfig w (AcmeData cfg) of
                   (hasAccount, evs) \<Rightarrow>
                     if \<not> hasAccount
                     then Returned (0, Some (Errorf ''Cannot create or retrieve the acme client account'' [])) i evs
                     else if \<not> IsLeader w
                     then (let msg = Sprintf_skipping (LeaderName w)
                           in Returned (0, Some (Errorf msg [])) i (evs @ [Logger Info msg []]))
                     else
                       (let storages = BuildAcmeStorages (Storages (AcmeData cfg));
                            count = int (length storages)
                        in Returned (count, None) i
                             (evs @ [Logger Info ''starting certificate check (%s)'' [ArgS source]] @
                              concat (map acmeAddStorage storages) @
                              [if count = 0 then Logger Info ''certificate list is empty'' []
                               else Logger Info ''finish adding %d certificate(s) to the work queue'' [ArgI count]])))))"

definition acmeUpdate :: "world \<Rightarrow> instance \<Rightarrow> event list" where
  "acmeUpdate w i =
     (case config i of
        None \<Rightarrow> []
      | Some cfg \<Rightarrow>
          if AcmeQueue (options i) = None then []
          else
            (let storages = Storages (AcmeData cfg)
             in if IsLeader w
                then (case acmeEnsureConfig w (AcmeData cfg) of
                        (hasAccount, evs) \<Rightarrow>
                          if \<not> hasAccount then evs
                          else evs @ concat (map acmeAddStorage (BuildAcmeStoragesAdd storages)) @
                               concat (map acmeRemoveStorage (BuildAcmeStoragesDel storages)))
                else if Updated storages
                then [Logger (InfoV 2) ''skipping acme update check, leader is %s'' [ArgS (LeaderName w)]]
                else []))"

section \<open>Idle metric\<close>

definition isDigit :: "char \<Rightarrow> bool" where
  "isDigit c = (c \<in> set ''0123456789'')"

text \<open>The leftmost match of \<^verbatim>\<open>Idle_pct: ([0-9]+)\<close>; the result is the captured group.\<close>

fun idleRegex_FindStringSubmatch :: "string \<Rightarrow> string option" where
  "idleRegex_FindStringSubmatch [] = None"
| "idleRegex_FindStringSubmatch (c # cs) =
     (let s = c # cs; p = ''Idle_pct: ''; ds = takeWhile isDigit (drop (length p) s)
      in if take (length p) s = p \<and> ds \<noteq> [] then Some ds
         else idleRegex_FindStringSubmatch cs)"

text \<open>
  \<^verbatim>\<open>strconv.Atoi\<close> on a string of decimal digits: beyond the range of a 64-bit
  \<^verbatim>\<open>int\<close> it returns the largest value together with an error.
\<close>

definition strconv_Atoi :: "string \<Rightarrow> int \<times> bool" where
  "strconv_Atoi ds =
     (let v = foldl (\<lambda>a c. 10 * a + (int (of_char c) - 48)) 0 ds
      in if v > 2 ^ 63 - 1 then (2 ^ 63 - 1, True) else (v, False))"

definition CalcIdleMetric :: "world \<Rightarrow> instance \<Rightarrow> unit result" where
  "CalcIdleMetric w i =
     (if \<not> up i then Returned () i []
      else (case config i of
              None \<Rightarrow> Panicked i []
            | Some cfg \<Rightarrow>
                (let ev = HAProxyCommand (AdminSocket (Global cfg)) ''show info''
                 in case showInfo w of
                      Inl e \<Rightarrow> Returned () i [ev, Logger Error ''error reading admin socket: %v'' [ArgE e]]
                    | Inr msg \<Rightarrow>
                        (case idleRegex_FindStringSubmatch msg of
                           None \<Rightarrow>
                             Returned () i
                               [ev, Logger Error ''cannot find Idle_pct field in the show info socket command'' []]
                         | Some idleStr \<Rightarrow>
                             (case strconv_Atoi idleStr of
                                (idle, failed) \<Rightarrow>
                                  Returned () i
                                    ([ev] @
                                     (if failed
                                      then [Logger Error ''Idle_pct has an invalid integer: %s'' [ArgS idleStr]]
                                      else []) @
                                     [Metrics_AddIdleFactor idle]))))))"

section \<open>Update orchestrator\<close>

definition logChanged :: "Config \<Rightarrow> event list" where
  "logChanged cfg =
     (let hostsAdd = map fst (Hosts_ItemsAdd cfg);
          backsAdd = Backends_ItemsAdd cfg
      in [if length hostsAdd < 100
          then (let hostsDel = map fst (Hosts_ItemsDel cfg);
                    hosts = sort (hostsAdd @ filter (\<lambda>host. host \<notin> set hostsAdd) hostsDel)
                in Logger (InfoV 2) ''updating %d host(s): %v'' [ArgI (int (length hosts)), ArgL hosts])
          else Logger (InfoV 2) ''updating %d hosts'' [ArgI (int (length hostsAdd))],
          if length backsAdd < 100
          then (let backsDel = Backends_ItemsDel cfg;
                    backs = sort (backsAdd @ filter (\<lambda>back. back \<notin> set backsAdd) backsDel)
                in Logger (InfoV 2) ''updating %d backend(s): %v'' [ArgI (int (length backs)), ArgL backs])
          else Logger (InfoV 2) ''updating %d backends'' [ArgI (int (length backsAdd))]])"

fun decimal :: "nat \<Rightarrow> string" where
  "decimal n =
     (if n < 10 then [char_of (48 + n)]
      else decimal (n div 10) @ [char_of (48 + n mod 10)])"

text \<open>\<^verbatim>\<open>fmt.Sprintf("%03d", j)\<close>: the sign, then the digits padded with zeros to width 3.\<close>

definition Sprintf_03d :: "int \<Rightarrow> string" where
  "Sprintf_03d j =
     (if j < 0
      then ''-'' @ replicate (2 - length (decimal (nat (- j)))) CHR ''0'' @ decimal (nat (- j))
      else replicate (3 - length (decimal (nat j))) CHR ''0'' @ decimal (nat j))"

text \<open>
  The loop over the changed shards of \<^verbatim>\<open>writeConfig\<close>; \<open>n\<close> is the index of the
  shard in the slice. The event holds the shard and the two arguments of
  \<^verbatim>\<open>filepath.Join\<close>.
\<close>

fun writeShards :: "world \<Rightarrow> string \<Rightarrow> nat \<Rightarrow> int list \<Rightarrow> err option \<times> event list" where
  "writeShards w dir n [] = (None, [])"
| "writeShards w dir n (j # js) =
     (let ev = HAProxyTmpl_WriteOutput j dir (''haproxy5-backend'' @ Sprintf_03d j @ ''.cfg'')
      in case haproxyTmplWriteOutput w n of
           Some e \<Rightarrow> (Some e, [ev])
         | None \<Rightarrow> (case writeShards w dir (n + 1) js of (e, evs) \<Rightarrow> (e, ev # evs)))"

definition writeConfig :: "world \<Rightarrow> instance \<Rightarrow> Config \<Rightarrow> err option \<times> event list" where
  "writeConfig w i cfg =
     (case modsecTmplWrite w of
        Some e \<Rightarrow> (Some e, [ModsecTmpl_Write])
      | None \<Rightarrow>
          (case haproxyTmplWrite w of
             Some e \<Rightarrow> (Some e, [ModsecTmpl_Write, HAProxyTmpl_Write])
           | None \<Rightarrow>
               if BackendShards (options i) > 0
               then (let shards = Backends_ChangedShards cfg
                     in if length shards > 0
                        then (case writeShards w (HAProxyCfgDir (options i)) 0 shards of
                                (Some e, evs) \<Rightarrow> (Some e, [ModsecTmpl_Write, HAProxyTmpl_Write] @ evs)
                              | (None, evs) \<Rightarrow>
                                  (None,
                                   [ModsecTmpl_Write, HAProxyTmpl_Write] @ evs @
                                   [Logger (InfoV 2) ''updated main cfg and %d backend file(s): %v''
                                      [ArgI (int (length shards)), ArgL (map Sprintf_03d shards)]]))
                        else (None, [ModsecTmpl_Write, HAProxyTmpl_Write]))
               else (None, [ModsecTmpl_Write, HAProxyTmpl_Write])))"

definition certExpireDel :: "(string \<times> hatypes_Host) list \<Rightarrow> string \<times> hatypes_Host \<Rightarrow> event list" where
  "certExpireDel hostsAdd del =
     (case del of (hostname, oldHost) \<Rightarrow>
        if HasTLS (TLS oldHost)
        then (case map_of hostsAdd hostname of
                None \<Rightarrow> [Metrics_SetCertExpireDate hostname (TLSCommonName (TLS oldHost)) None]
              | Some curHost \<Rightarrow>
                  if TLSCommonName (TLS oldHost) \<noteq> TLSCommonName (TLS curHost)
                  then [Metrics_SetCertExpireDate hostname (TLSCommonName (TLS oldHost)) None]
                  else [])
        else [])"

definition certExpireAdd :: "(string \<times> hatypes_Host) list \<Rightarrow> string \<times> hatypes_Host \<Rightarrow> event list" where
  "certExpireAdd hostsDel add =
     (case add of (hostname, curHost) \<Rightarrow>
        if HasTLS (TLS curHost)
        then (case map_of hostsDel hostname of
                None \<Rightarrow>
                  [Metrics_SetCertExpireDate hostname (TLSCommonName (TLS curHost))
                     (Some (TLSNotAfter (TLS curHost)))]
              | Some oldHost \<Rightarrow>
                  if TLSCommonName (TLS oldHost) \<noteq> TLSCommonName (TLS curHost) \<or>
                     TLSNotAfter (TLS oldHost) \<noteq> TLSNotAfter (TLS curHost)
                  then [Metrics_SetCertExpireDate hostname (TLSCommonName (TLS curHost))
                          (Some (TLSNotAfter (TLS curHost)))]
                  else [])
        else [])"

definition updateCertExpiring :: "Config \<Rightarrow> event list" where
  "updateCertExpiring cfg =
     (let hostsAdd = Hosts_ItemsAdd cfg;
          hostsDel = Hosts_ItemsDel cfg
      in (if \<not> Hosts_HasCommit cfg then [Metrics_ClearCertExpire] else []) @
         concat (map (certExpireDel hostsAdd) hostsDel) @
         concat (map (certExpireAdd hostsDel) hostsAdd))"

text \<open>
  A deferred call runs when the function ends, by return or by panic, after everything
  else the function did; it reads the instance as it is then.
\<close>

definition deferred :: "(instance \<Rightarrow> event list) \<Rightarrow> 'a result option \<Rightarrow> 'a result option" where
  "deferred f r =
     (case r of
        None \<Rightarrow> None
      | Some (Panicked i evs) \<Rightarrow> Some (Panicked i (evs @ f i))
      | Some (Returned x i evs) \<Rightarrow> Some (Returned x i (evs @ f i)))"

definition prepend :: "event list \<Rightarrow> 'a result option \<Rightarrow> 'a result option" where
  "prepend pre r =
     (case r of
        None \<Rightarrow> None
      | Some (Panicked i evs) \<Rightarrow> Some (Panicked i (pre @ evs))
      | Some (Returned x i evs) \<Rightarrow> Some (Returned x i (pre @ evs)))"

definition logFailedSince :: "instance \<Rightarrow> event list" where
  "logFailedSince i =
     (case failedSince i of
        Some t \<Rightarrow> [Logger Error ''haproxy failed to reload, first occurence at %s'' [ArgT t]]
      | None \<Rightarrow> [])"

text \<open>Lines 301 to 324: the branch on the outcome of the dynamic update.\<close>

definition haproxyUpdate_apply :: "world \<Rightarrow> instance \<Rightarrow> Config \<Rightarrow> unit result option" where
  "haproxyUpdate_apply w i cfg =
     (if updated w
      then (if cmdCnt w > 0
            then (case (if ValidateConfig (options i)
                        then (case check w i cfg of
                                (err, cevs) \<Rightarrow>
                                  (case updateSuccessful w (err = None) i of
                                     (i1, uevs) \<Rightarrow>
                                       (i1,
                                        cevs @
                                        (case err of
                                           Some e \<Rightarrow>
                                             [Logger Error (''error validating config file:'' @ [CHR 0x0A] @ ''%v'') [ArgE e]]
                                         | None \<Rightarrow> []) @
                                        [Timer_Tick ''validate_cfg''] @ uevs)))
                        else (i, [])) of
                    (i1, evs) \<Rightarrow>
                      Some (Returned () i1
                        (evs @
                         [Logger Info ''haproxy updated without needing to reload. Commands sent: %d''
                            [ArgI (cmdCnt w)],
                          Metrics_IncUpdateDynamic])))
            else Some (Returned () i
                   [Logger Info ''old and new configurations match'' [], Metrics_IncUpdateNoop]))
      else if ReloadQueue (options i) \<noteq> None
      then Some (Returned () i [ReloadQueue_Notify, Logger (InfoV 2) ''haproxy reload enqueued'' []])
      else Reload w i)"

text \<open>Lines 275 to 281: the order of the endpoints, once the updater has answered.\<close>

definition orderEndpoints :: "world \<Rightarrow> instance \<Rightarrow> event list" where
  "orderEndpoints w i =
     (if SortEndpointsBy (options i) \<noteq> ''random''
      then [Backends_SortChangedEndpoints (SortEndpointsBy (options i))]
      else if \<not> updated w
      then [Backends_ShuffleAllEndpoints, Timer_Tick ''shuffle_endpoints'']
      else [])"

text \<open>Lines 251 to 324: the body that runs under the deferred commit.\<close>

definition haproxyUpdate_body :: "world \<Rightarrow> instance \<Rightarrow> Config \<Rightarrow> unit result option" where
  "haproxyUpdate_body w i cfg =
     (case WriteTCPServicesMaps cfg of
        Some e \<Rightarrow>
          Some (Returned () i
            [Config_SyncConfig, Config_Shrink, Config_WriteTCPServicesMaps,
             Logger Error ''error building tcp services maps: %v'' [ArgE e], Metrics_IncUpdateNoop])
      | None \<Rightarrow>
     (case WriteFrontendMaps cfg of
        Some e \<Rightarrow>
          Some (Returned () i
            [Config_SyncConfig, Config_Shrink, Config_WriteTCPServicesMaps, Config_WriteFrontendMaps,
             Logger Error ''error building frontend maps: %v'' [ArgE e], Metrics_IncUpdateNoop])
      | None \<Rightarrow>
     (case WriteBackendMaps cfg of
        Some e \<Rightarrow>
          Some (Returned () i
            [Config_SyncConfig, Config_Shrink, Config_WriteTCPServicesMaps, Config_WriteFrontendMaps,
             Config_WriteBackendMaps,
             Logger Error ''error building backend maps: %v'' [ArgE e], Metrics_IncUpdateNoop])
      | None \<Rightarrow>
          (let evs1 =
                 [Config_SyncConfig, Config_Shrink, Config_WriteTCPServicesMaps, Config_WriteFrontendMaps,
                  Config_WriteBackendMaps, Timer_Tick ''write_maps''] @
                 (if \<not> fake (options i) then logChanged cfg else []) @
                 [Updater_update] @
                 orderEndpoints w i @
                 [Backends_FillSourceIPs]
           in case (if \<not> updated w \<or> cmdCnt w > 0
                    then (case writeConfig w i cfg of
                            (err, wevs) \<Rightarrow> (err, evs1 @ wevs @ [Timer_Tick ''write_config'']))
                    else (None, evs1)) of
                (Some e, evs2) \<Rightarrow>
                  Some (Returned () i
                    (evs2 @ [Logger Error ''error writing configuration: %v'' [ArgE e], Metrics_IncUpdateNoop]))
              | (None, evs2) \<Rightarrow>
                  prepend (evs2 @ updateCertExpiring cfg)
                    (deferred logFailedSince (haproxyUpdate_apply w i cfg))))))"

definition haproxyUpdate :: "world \<Rightarrow> instance \<Rightarrow> unit result option" where
  "haproxyUpdate w i =
     (case config i of
        None \<Rightarrow> Some (Returned () i [])
      | Some cfg \<Rightarrow> deferred (\<lambda>_. [Config_Commit]) (haproxyUpdate_body w i cfg))"

definition Update :: "world \<Rightarrow> instance \<Rightarrow> unit result option" where
  "Update w i = prepend (acmeUpdate w i) (haproxyUpdate w i)"

text \<open>
  \<^verbatim>\<open>Config()\<close> attaches a configuration when there is none; \<open>created\<close> is what
  \<^verbatim>\<open>createConfig\<close> builds.
\<close>

definition Config_get :: "Config \<Rightarrow> instance \<Rightarrow> Config \<times> instance" where
  "Config_get created i =
     (case config i of
        None \<Rightarrow> (created, i\<lparr>config := Some created\<rparr>)
      | Some cfg \<Rightarrow> (cfg, i))"

definition CreateInstance :: "InstanceOptions \<Rightarrow> instance" where
  "CreateInstance opts = \<lparr>up = False, failedSince = None, options = opts, config = None\<rparr>"

section \<open>Observing a call\<close>

primrec final :: "'a result \<Rightarrow> instance" where
  "final (Panicked i evs) = i"
| "final (Returned x i evs) = i"

primrec events :: "'a result \<Rightarrow> event list" where
  "events (Panicked i evs) = evs"
| "events (Returned x i evs) = evs"

primrec forget :: "'a result \<Rightarrow> unit result" where
  "forget (Panicked i evs) = Panicked i evs"
| "forget (Returned x i evs) = Returned () i evs"

text \<open>
  The only loop without a bound is the first-run wait of the external reload. It is
  entered by a reload that is neither faked nor embedded while \<open>up\<close> is still false, and
  it goes on for ever when no \<^verbatim>\<open>show proc\<close> is answered and the stop channel never fires.
\<close>

definition waitsForever :: "world \<Rightarrow> instance \<Rightarrow> bool" where
  "waitsForever w i =
     (\<not> fake (options i) \<and> \<not> up i \<and>
      (case config i of None \<Rightarrow> False | Some cfg \<Rightarrow> IsExternal (External (Global cfg))) \<and>
      (\<forall>k. showProcWait w k \<noteq> None \<and> \<not> stopCh w k))"

text \<open>Four methods of the \<^verbatim>\<open>Instance\<close> interface as one operation.\<close>

datatype call = Call_Update | Call_Reload | Call_AcmeCheck string | Call_CalcIdleMetric

definition perform :: "call \<Rightarrow> world \<Rightarrow> instance \<Rightarrow> unit result option" where
  "perform c w i =
     (case c of
        Call_Update \<Rightarrow> Update w i
      | Call_Reload \<Rightarrow> Reload w i
      | Call_AcmeCheck source \<Rightarrow> Some (forget (AcmeCheck w source i))
      | Call_CalcIdleMetric \<Rightarrow> Some (CalcIdleMetric w i))"


fun isAcmeQueue :: "event \<Rightarrow> bool" where
  "isAcmeQueue (AcmeQueue_Add s) = True"
| "isAcmeQueue (AcmeQueue_Remove s) = True"
| "isAcmeQueue ev = False"

text \<open>The events of the first-run wait, and the events of a reload strategy.\<close>

fun isWaitStep :: "event \<Rightarrow> bool" where
  "isWaitStep (Logger l f as) = True"
| "isWaitStep (HAProxyCommand s c) = (c = ''show proc'')"
| "isWaitStep Time_After_Second = True"
| "isWaitStep ev = False"

fun isReloadIO :: "event \<Rightarrow> bool" where
  "isReloadIO (Logger l f as) = True"
| "isReloadIO (HAProxyCommand s c) = True"
| "isReloadIO (HAProxyProcs s) = True"
| "isReloadIO (Exec_Command c as) = True"
| "isReloadIO (Os_WriteFile p c) = True"
| "isReloadIO Time_After_Second = True"
| "isReloadIO ev = False"

text \<open>
  The events that tell the branches of a tick apart: the ordering of the endpoints, a
  reload request, a reload, the report to the health tracker, the commit.
\<close>

fun decisive :: "event \<Rightarrow> bool" where
  "decisive (Backends_SortChangedEndpoints c) = True"
| "decisive Backends_ShuffleAllEndpoints = True"
| "decisive ReloadQueue_Notify = True"
| "decisive Metrics_IncUpdateFull = True"
| "decisive (Metrics_UpdateSuccessful b) = True"
| "decisive Config_Commit = True"
| "decisive ev = False"

text \<open>The two steps that can end a tick before its outcome is applied.\<close>

definition mapsWritten :: "Config \<Rightarrow> bool" where
  "mapsWritten cfg =
     (WriteTCPServicesMaps cfg = None \<and> WriteFrontendMaps cfg = None \<and> WriteBackendMaps cfg = None)"

definition configWritten :: "world \<Rightarrow> instance \<Rightarrow> Config \<Rightarrow> bool" where
  "configWritten w i cfg =
     (if \<not> updated w \<or> cmdCnt w > 0 then fst (writeConfig w i cfg) = None else True)"

text \<open>
  A call attempts a reload when it is \<^verbatim>\<open>Reload\<close> itself, or a tick that comes to the
  synchronous reload: a configuration is attached, maps and files were written, the
  updater asks for a reload and there is no reload queue. The reload failed or succeeded
  as \<^verbatim>\<open>reloadHAProxy\<close> returned an error or none.
\<close>

definition reloadAttempted :: "call \<Rightarrow> world \<Rightarrow> instance \<Rightarrow> bool" where
  "reloadAttempted c w i =
     (case c of
        Call_Reload \<Rightarrow> True
      | Call_Update \<Rightarrow>
          (case config i of
             None \<Rightarrow> False
           | Some cfg \<Rightarrow>
               mapsWritten cfg \<and> configWritten w i cfg \<and> \<not> updated w \<and>
               ReloadQueue (options i) = None)
      | Call_AcmeCheck source \<Rightarrow> False
      | Call_CalcIdleMetric \<Rightarrow> False)"




section \<open>What a call reports\<close>

text \<open>
  The decisive events that the code is expected to emit, written down once so that the
  lemmas below can say what a tick did: the report of a reload to the health tracker,
  the outcome applied by a tick that wrote its maps and files, and the whole tick.
\<close>

definition reloadReport :: "world \<Rightarrow> instance \<Rightarrow> event list" where
  "reloadReport w i =
     (case reloadHAProxy w i of
        Some (Returned None i1 io) \<Rightarrow> [Metrics_UpdateSuccessful True]
      | Some (Returned (Some e) i1 io) \<Rightarrow> [Metrics_UpdateSuccessful False]
      | _ \<Rightarrow> [])"

definition applied :: "world \<Rightarrow> instance \<Rightarrow> Config \<Rightarrow> event list" where
  "applied w i cfg =
     (if updated w
      then (if cmdCnt w > 0 \<and> ValidateConfig (options i)
            then [Metrics_UpdateSuccessful (fst (check w i cfg) = None)] else [])
      else if ReloadQueue (options i) \<noteq> None then [ReloadQueue_Notify]
      else Metrics_IncUpdateFull # reloadReport w i)"

definition decisions :: "world \<Rightarrow> instance \<Rightarrow> event list" where
  "decisions w i =
     (case config i of
        None \<Rightarrow> []
      | Some cfg \<Rightarrow>
          (if mapsWritten cfg
           then filter decisive (orderEndpoints w i) @
                (if configWritten w i cfg then applied w i cfg else [])
           else []) @
          [Config_Commit])"

text \<open>
  The fields of the instance as the reports of a call leave them: a success clears
  \<open>failedSince\<close> (and a successful reload sets \<open>up\<close>), a failure records the time
  unless one is already recorded, and nothing else touches them.
\<close>

definition after :: "world \<Rightarrow> instance \<Rightarrow> event list \<Rightarrow> instance" where
  "after w i evs =
     (if Metrics_UpdateSuccessful True \<in> set evs
      then i\<lparr>up := up i \<or> Metrics_IncUpdateFull \<in> set evs, failedSince := None\<rparr>
      else if Metrics_UpdateSuccessful False \<in> set evs
      then i\<lparr>failedSince := Some (case failedSince i of None \<Rightarrow> Now w | Some t \<Rightarrow> t)\<rparr>
      else i)"


definition skipNotice :: "world \<Rightarrow> event" where
  "skipNotice w = Logger (InfoV 2) ''skipping acme update check, leader is %s'' [ArgS (LeaderName w)]"

section \<open>Concrete inputs\<close>

text \<open>
  An embedded instance with a configuration attached and collaborators that all answer
  without error; the variations used below are written as updates of these.
\<close>

definition example_options :: InstanceOptions where
  "example_options =
     \<lparr>AcmeQueue = Some Queue, BackendShards = 0, HAProxyCfgDir = ''/etc/haproxy'',
      HAProxyMapsDir = ''/etc/haproxy/maps'', MaxOldConfigFiles = 0, ReloadQueue = None,
      ReloadStrategy = ''native'', SortEndpointsBy = ''endpoint'', ValidateConfig = False,
      fake = False\<rparr>"

definition example_config :: Config where
  "example_config =
     \<lparr>AcmeData =
        \<lparr>Expiring = 30, Endpoint = ''v2'', Emails = ''ops@example.com'', TermsAgreed = True,
         Storages =
           \<lparr>BuildAcmeStorages = [''crt1,,a.example.com'', ''crt2,,b.example.com''],
            BuildAcmeStoragesAdd = [''crt1,,a.example.com'', ''crt2,,b.example.com''],
            BuildAcmeStoragesDel = [], Updated = True\<rparr>\<rparr>,
      Global =
        \<lparr>AdminSocket = ''/var/run/admin.sock'',
         External = \<lparr>IsExternal = False, MasterSocket = []\<rparr>,
         LoadServerState = False\<rparr>,
      Hosts_ItemsAdd = [], Hosts_ItemsDel = [], Hosts_HasCommit = True,
      Backends_ItemsAdd = [], Backends_ItemsDel = [], Backends_ChangedShards = [],
      WriteTCPServicesMaps = None, WriteFrontendMaps = None, WriteBackendMaps = None\<rparr>"

definition external_config :: Config where
  "external_config =
     example_config
       \<lparr>Global :=
          \<lparr>AdminSocket = ''/var/run/admin.sock'',
           External = \<lparr>IsExternal = True, MasterSocket = ''/var/run/master.sock''\<rparr>,
           LoadServerState = False\<rparr>\<rparr>"

definition example_world :: world where
  "example_world =
     \<lparr>Now = 1000, IsLeader = True, LeaderName = ''pod-0'', HasAccount = True,
      updated = False, cmdCnt = 0,
      modsecTmplWrite = None, haproxyTmplWrite = None, haproxyTmplWriteOutput = (\<lambda>n. None),
      checkOutput = ([], None), reloadOutput = ([], None),
      showProcWait = (\<lambda>k. None), stopCh = (\<lambda>k. False),
      showServersState = Inr [], writeStateFile = None, masterReload = None,
      showProcs = Inr [''1'', ''2''], showInfo = Inr ''Idle_pct: 97''\<rparr>"

definition example_instance :: "instance" where
  "example_instance = (CreateInstance example_options)\<lparr>config := Some example_config\<rparr>"

definition external_instance :: "instance" where
  "external_instance = (CreateInstance example_options)\<lparr>config := Some external_config\<rparr>"

definition exit_status_1 :: err where
  "exit_status_1 = Errorf ''exit status 1'' []"

definition no_space :: err where
  "no_space = Errorf ''write /etc/haproxy/haproxy.cfg: no space left on device'' []"

definition random_instance :: "instance" where
  "random_instance = example_instance\<lparr>options := example_options\<lparr>SortEndpointsBy := ''random''\<rparr>\<rparr>"







section \<open>The reload strategies: what they emit and when they return\<close>

lemma isWaitStep_isReloadIO: "isWaitStep ev \<Longrightarrow> isReloadIO ev"
  by (cases ev) auto

lemma waitExternal_steps:
  assumes "waitExternal w s j evs = Some y"
  shows "\<exists>new. snd y = evs @ new \<and> list_all isWaitStep new \<and>
           (fst y = None \<or> fst y = Some (Errorf ''received sigterm'' []))"
proof (rule waitExternal.raw_induct
    [where P = "\<lambda>w s j evs y. \<exists>new. snd y = evs @ new \<and> list_all isWaitStep new \<and>
           (fst y = None \<or> fst y = Some (Errorf ''received sigterm'' []))", OF _ assms],
    goal_cases)
  case (1 wait w s j evs y)
  show ?case
  proof (cases "showProcWait w j")
    case None
    with 1(2) show ?thesis by auto
  next
    case (Some err)
    define evs1 where "evs1 = evs @ [HAProxyCommand s ''show proc''] @
                 (if (j + 1) mod 10 = 0
                  then [Logger Info (''cannot connect to the master socket '' @ [CHR 0x27] @ ''%s'' @ [CHR 0x27] @ '': %v'')
                          [ArgS s, ArgE err]]
                  else [])"
    have e: "\<exists>n. evs1 = evs @ n \<and> list_all isWaitStep n"
      by (simp add: evs1_def)
    show ?thesis
    proof (cases "stopCh w j")
      case True
      with Some 1(2) have "y = (Some (Errorf ''received sigterm'' []), evs1)"
        by (simp add: evs1_def)
      with e show ?thesis by auto
    next
      case False
      from False Some 1(2) have w: "wait w s (j + 1) (evs1 @ [Time_After_Second]) = Some y"
        by (simp add: evs1_def)
      from 1(1)[OF w] e show ?thesis by auto
    qed
  qed
qed

lemma waitExternal_returns:
  "showProcWait w (j + k) = None \<or> stopCh w (j + k) \<Longrightarrow> \<exists>r. waitExternal w s j evs = Some r"
proof (induction k arbitrary: j evs)
  case 0
  then show ?case by (subst waitExternal.simps) (auto split: option.splits simp: Let_def)
next
  case (Suc k)
  from Suc.prems have "showProcWait w (Suc j + k) = None \<or> stopCh w (Suc j + k)" by simp
  from Suc.IH[OF this] show ?case
    by (subst waitExternal.simps) (auto split: option.splits simp: Let_def)
qed

lemma persistServersState_steps: "list_all isReloadIO (snd (persistServersState w cfg))"
  by (auto simp: persistServersState_def retrieveServersState_def Let_def split: sum.splits option.splits)

lemma persistServersState_noreload:
  "HAProxyCommand s ''reload'' \<notin> set (snd (persistServersState w cfg))"
  by (auto simp: persistServersState_def retrieveServersState_def Let_def split: sum.splits option.splits)

lemma reloadExternal_reload_steps:
  "\<exists>new. snd (reloadExternal_reload w cfg evs) = evs @ new \<and> list_all isReloadIO new"
  using persistServersState_steps[of w cfg]
  by (cases "persistServersState w cfg")
     (auto simp: reloadExternal_reload_def Let_def split: sum.splits option.splits)

lemma reloadExternal_reload_empty:
  "masterReload w = None \<Longrightarrow> showProcs w = Inr [] \<Longrightarrow>
   fst (reloadExternal_reload w cfg evs) = Some (Errorf ''external haproxy was not successfully reloaded'' [])"
  by (auto simp: reloadExternal_reload_def Let_def split: sum.splits option.splits prod.splits)

lemma reloadExternal_steps:
  assumes "reloadExternal w i cfg = Some y"
  shows "list_all isReloadIO (snd y)"
proof (cases "up i")
  case True
  with assms reloadExternal_reload_steps[of w cfg "[]"] show ?thesis
    by (auto simp: reloadExternal_def)
next
  case False
  let ?s = "MasterSocket (External (Global cfg))"
  let ?e0 = "[Logger Info ''waiting for the external haproxy...'' []]"
  from False assms obtain y0 where y0: "waitExternal w ?s 0 ?e0 = Some y0"
    by (auto simp: reloadExternal_def Let_def split: option.splits)
  from waitExternal_steps[OF y0] obtain new where
    new: "snd y0 = ?e0 @ new" "list_all isWaitStep new" by blast
  then have io: "list_all isReloadIO (snd y0)"
    by (auto simp: list_all_iff intro: isWaitStep_isReloadIO)
  show ?thesis
  proof (cases "fst y0")
    case None
    with y0 False assms have "y = reloadExternal_reload w cfg (snd y0)"
      by (cases y0) (auto simp: reloadExternal_def Let_def)
    with io reloadExternal_reload_steps[of w cfg "snd y0"] show ?thesis by auto
  next
    case (Some e)
    with y0 False assms have "y = (Some e, snd y0)"
      by (cases y0) (auto simp: reloadExternal_def Let_def)
    with io show ?thesis by simp
  qed
qed

lemma reloadEmbedded_steps: "list_all isReloadIO (snd (reloadEmbedded w i cfg))"
  by (auto simp: reloadEmbedded_def Let_def split: prod.splits)

lemma reloadHAProxy_final:
  assumes "reloadHAProxy w i = Some r"
  shows "final r = i \<and> list_all isReloadIO (events r)"
proof (cases "fake (options i)")
  case True
  with assms show ?thesis by (auto simp: reloadHAProxy_def)
next
  case False
  note nf = this
  show ?thesis
  proof (cases "config i")
    case None
    with nf assms show ?thesis by (auto simp: reloadHAProxy_def)
  next
    case (Some cfg)
    show ?thesis
    proof (cases "IsExternal (External (Global cfg))")
      case True
      with nf Some assms obtain y where y: "reloadExternal w i cfg = Some y"
        and r: "r = Returned (fst y) i (snd y)"
        by (auto simp: reloadHAProxy_def split: option.splits)
      from reloadExternal_steps[OF y] r show ?thesis by simp
    next
      case False
      with nf Some assms reloadEmbedded_steps[of w i cfg] show ?thesis
        by (auto simp: reloadHAProxy_def split: prod.splits)
    qed
  qed
qed

lemma reloadExternal_returns:
  assumes "up i \<or> (\<exists>k. showProcWait w k = None \<or> stopCh w k)"
  shows "\<exists>y. reloadExternal w i cfg = Some y"
proof (cases "up i")
  case True
  then show ?thesis by (simp add: reloadExternal_def)
next
  case False
  with assms obtain k where "showProcWait w (0 + k) = None \<or> stopCh w (0 + k)" by auto
  from waitExternal_returns[OF this] obtain y0 where
    "waitExternal w (MasterSocket (External (Global cfg))) 0
       [Logger Info ''waiting for the external haproxy...'' []] = Some y0" by blast
  with False show ?thesis
    by (cases y0) (auto simp: reloadExternal_def Let_def split: option.splits)
qed

lemma reloadHAProxy_returns:
  assumes "\<not> waitsForever w i"
  shows "\<exists>r. reloadHAProxy w i = Some r"
proof (cases "fake (options i) \<or> config i = None")
  case True
  then show ?thesis by (auto simp: reloadHAProxy_def)
next
  case False
  then obtain cfg where cfg: "config i = Some cfg" and nf: "\<not> fake (options i)" by auto
  show ?thesis
  proof (cases "IsExternal (External (Global cfg))")
    case True
    with assms cfg nf have "up i \<or> (\<exists>k. showProcWait w k = None \<or> stopCh w k)"
      by (auto simp: waitsForever_def)
    from reloadExternal_returns[OF this, of cfg] cfg nf True show ?thesis
      by (auto simp: reloadHAProxy_def)
  next
    case False
    with cfg nf show ?thesis by (auto simp: reloadHAProxy_def split: prod.splits)
  qed
qed

lemma isWaitStep_noreload: "list_all isWaitStep evs \<Longrightarrow> HAProxyCommand s ''reload'' \<notin> set evs"
  by (auto simp: list_all_iff)

lemma Reload_returns:
  assumes "\<not> waitsForever w i"
  shows "\<exists>r. Reload w i = Some r"
proof -
  from reloadHAProxy_returns[OF assms] obtain r0 where "reloadHAProxy w i = Some r0" by blast
  then show ?thesis
    by (cases r0) (auto simp: Reload_def Let_def updateSuccessful_def split: option.splits)
qed

lemma Reload_cases:
  assumes "Reload w i = Some r"
  obtains
    (nil_before) io where
      "reloadHAProxy w i = Some (Panicked i io)" "list_all isReloadIO io"
      "r = Panicked i (Metrics_IncUpdateFull # io)"
  | (failed) e io where
      "reloadHAProxy w i = Some (Returned (Some e) i io)" "list_all isReloadIO io"
      "r = Returned () (fst (updateSuccessful w False i))
             (Metrics_IncUpdateFull # io @
              [Timer_Tick ''reload_haproxy'',
               Logger Error (''error reloading server:'' @ [CHR 0x0A] @ ''%v'') [ArgE e],
               Metrics_UpdateSuccessful False])"
  | (nil_after) io where
      "reloadHAProxy w i = Some (Returned None i io)" "list_all isReloadIO io" "config i = None"
      "r = Panicked (i\<lparr>up := True, failedSince := None\<rparr>)
             (Metrics_IncUpdateFull # io @ [Timer_Tick ''reload_haproxy'', Metrics_UpdateSuccessful True])"
  | (succeeded) io cfg where
      "reloadHAProxy w i = Some (Returned None i io)" "list_all isReloadIO io" "config i = Some cfg"
      "r = Returned () (i\<lparr>up := True, failedSince := None\<rparr>)
             (Metrics_IncUpdateFull # io @
              [Timer_Tick ''reload_haproxy'', Metrics_UpdateSuccessful True,
               if IsExternal (External (Global cfg))
               then Logger Info ''haproxy successfully reloaded (external)'' []
               else Logger Info ''haproxy successfully reloaded (embedded)'' []])"
proof -
  from assms obtain r0 where r0: "reloadHAProxy w i = Some r0"
    by (auto simp: Reload_def split: option.splits)
  from reloadHAProxy_final[OF r0] have f: "final r0 = i" and io: "list_all isReloadIO (events r0)"
    by simp_all
  show thesis
  proof (cases r0)
    case (Panicked i1 evs)
    with f io r0 assms show ?thesis
      by (intro nil_before[of evs]) (auto simp: Reload_def)
  next
    case (Returned err i1 evs)
    with f have i1: "i1 = i" by simp
    show ?thesis
    proof (cases err)
      case (Some e)
      with Returned i1 io r0 assms show ?thesis
        by (intro failed[of e evs]) (auto simp: Reload_def Let_def updateSuccessful_def)
    next
      case None
      show ?thesis
      proof (cases "config i")
        case cn: None
        with None Returned i1 io r0 assms show ?thesis
          by (intro nil_after[of evs]) (auto simp: Reload_def Let_def updateSuccessful_def)
      next
        case (Some cfg)
        with None Returned i1 io r0 assms show ?thesis
          by (intro succeeded[of evs cfg]) (auto simp: Reload_def Let_def updateSuccessful_def)
      qed
    qed
  qed
qed

lemma isReloadIO_not:
  "list_all isReloadIO io \<Longrightarrow> Metrics_IncUpdateFull \<notin> set io"
  "list_all isReloadIO io \<Longrightarrow> Metrics_UpdateSuccessful b \<notin> set io"
  "list_all isReloadIO io \<Longrightarrow> Config_Commit \<notin> set io"
  "list_all isReloadIO io \<Longrightarrow> ReloadQueue_Notify \<notin> set io"
  by (auto simp: list_all_iff)

text \<open>The reload that stays in the first-run wait is the only one that does not return.\<close>

lemma waitExternal_ended:
  assumes "waitExternal w s j evs = Some y"
  shows "\<exists>k. showProcWait w (j + k) = None \<or> stopCh w (j + k)"
proof (rule waitExternal.raw_induct
    [where P = "\<lambda>w s j evs y. \<exists>k. showProcWait w (j + k) = None \<or> stopCh w (j + k)", OF _ assms],
    goal_cases)
  case (1 wait w s j evs y)
  show ?case
  proof (cases "showProcWait w j = None \<or> stopCh w j")
    case True
    then have "showProcWait w (j + 0) = None \<or> stopCh w (j + 0)" by simp
    then show ?thesis by blast
  next
    case False
    with 1(2) obtain evs' where "wait w s (j + 1) evs' = Some y"
      by (auto simp: Let_def split: option.splits)
    from 1(1)[OF this] obtain k where "showProcWait w (j + 1 + k) = None \<or> stopCh w (j + 1 + k)"
      by blast
    then have "showProcWait w (j + (k + 1)) = None \<or> stopCh w (j + (k + 1))"
      by (simp add: add.assoc add.commute)
    then show ?thesis by blast
  qed
qed

lemma Reload_never:
  assumes "waitsForever w i"
  shows "Reload w i = None"
proof -
  from assms obtain cfg where c: "config i = Some cfg" "IsExternal (External (Global cfg))"
    and f: "\<not> fake (options i)" "\<not> up i"
    and n: "\<forall>k. showProcWait w k \<noteq> None \<and> \<not> stopCh w k"
    by (auto simp: waitsForever_def split: option.splits)
  have "waitExternal w (MasterSocket (External (Global cfg))) 0
          [Logger Info ''waiting for the external haproxy...'' []] = None"
  proof (rule ccontr)
    assume "waitExternal w (MasterSocket (External (Global cfg))) 0
          [Logger Info ''waiting for the external haproxy...'' []] \<noteq> None"
    then obtain y where "waitExternal w (MasterSocket (External (Global cfg))) 0
          [Logger Info ''waiting for the external haproxy...'' []] = Some y" by auto
    from waitExternal_ended[OF this] n show False by auto
  qed
  with c f show ?thesis
    by (simp add: Reload_def reloadHAProxy_def reloadExternal_def)
qed

lemma Reload_returns_iff: "(\<exists>r. Reload w i = Some r) \<longleftrightarrow> \<not> waitsForever w i"
  using Reload_never[of w i] Reload_returns[of w i] by auto

section \<open>A tick, step by step\<close>

lemma isReloadIO_quiet: "isReloadIO ev \<Longrightarrow> \<not> decisive ev"
  by (cases ev) auto

lemma quiet_reloadIO: "list_all isReloadIO io \<Longrightarrow> filter decisive io = []"
  by (auto simp: filter_empty_conv list_all_iff dest: isReloadIO_quiet)

lemma quiet_logChanged: "filter decisive (logChanged cfg) = []"
  by (simp add: logChanged_def Let_def)

lemma quiet_writeShards: "filter decisive (snd (writeShards w dir n js)) = []"
proof (induction js arbitrary: n)
  case Nil
  show ?case by simp
next
  case (Cons j js)
  from Cons[of "n + 1"] show ?case
    by (cases "writeShards w dir (n + 1) js") (auto simp: Let_def split: option.splits)
qed

lemma quiet_writeConfig: "filter decisive (snd (writeConfig w i cfg)) = []"
proof -
  have "filter decisive (snd (writeShards w (HAProxyCfgDir (options i)) 0 (Backends_ChangedShards cfg))) = []"
    by (rule quiet_writeShards)
  then show ?thesis
    by (auto simp: writeConfig_def Let_def split: option.splits prod.splits)
qed

lemma quiet_updateCertExpiring: "filter decisive (updateCertExpiring cfg) = []"
  by (auto simp: updateCertExpiring_def Let_def filter_empty_conv certExpireDel_def certExpireAdd_def
      split: option.splits if_splits)

lemma quiet_check: "filter decisive (snd (check w i cfg)) = []"
  by (auto simp: check_def Let_def split: prod.splits)

lemma quiet_acmeAddStorage: "filter decisive (acmeAddStorage s) = []"
  by (simp add: acmeAddStorage_def Let_def)

lemma quiet_acmeUpdate: "filter decisive (acmeUpdate w i) = []"
  by (auto simp: acmeUpdate_def Let_def filter_empty_conv acmeEnsureConfig_def acmeAddStorage_def
      acmeRemoveStorage_def split: option.splits if_splits)

lemma quiet_logFailedSince: "filter decisive (logFailedSince i) = []"
  by (simp add: logFailedSince_def split: option.splits)

lemma decisive_orderEndpoints:
  "filter decisive (orderEndpoints w i) =
     (if SortEndpointsBy (options i) \<noteq> ''random''
      then [Backends_SortChangedEndpoints (SortEndpointsBy (options i))]
      else if \<not> updated w then [Backends_ShuffleAllEndpoints] else [])"
  by (simp add: orderEndpoints_def)

lemma decisive_Reload:
  assumes "Reload w i = Some r"
  shows "filter decisive (events r) =
           Metrics_IncUpdateFull #
           (case reloadHAProxy w i of
              Some (Returned None i1 io) \<Rightarrow> [Metrics_UpdateSuccessful True]
            | Some (Returned (Some e) i1 io) \<Rightarrow> [Metrics_UpdateSuccessful False]
            | _ \<Rightarrow> [])"
  using assms by (cases rule: Reload_cases) (auto simp: quiet_reloadIO)

lemma final_Reload:
  assumes "Reload w i = Some r"
  shows "final r =
           (case reloadHAProxy w i of
              Some (Returned None i1 io) \<Rightarrow> i\<lparr>up := True, failedSince := None\<rparr>
            | Some (Returned (Some e) i1 io) \<Rightarrow>
                i\<lparr>failedSince := Some (case failedSince i of None \<Rightarrow> Now w | Some t \<Rightarrow> t)\<rparr>
            | _ \<Rightarrow> i)"
  using assms by (cases rule: Reload_cases) (auto simp: updateSuccessful_def split: option.splits)

lemma after_filter: "after w i (filter decisive evs) = after w i evs"
  by (simp add: after_def)

lemma decisive_Reload':
  "Reload w i = Some r \<Longrightarrow> filter decisive (events r) = Metrics_IncUpdateFull # reloadReport w i"
  by (simp add: decisive_Reload reloadReport_def)

lemma final_Reload':
  assumes "Reload w i = Some r"
  shows "final r = after w i (events r)"
proof -
  have "final r = after w i (Metrics_IncUpdateFull # reloadReport w i)"
    using final_Reload[OF assms]
    by (auto simp: after_def reloadReport_def split: option.splits result.splits)
  with decisive_Reload'[OF assms] after_filter[of w i "events r"] show ?thesis by simp
qed

lemma returns_apply:
  "\<not> waitsForever w i \<Longrightarrow> \<exists>r. haproxyUpdate_apply w i cfg = Some r"
  using Reload_returns[of w i]
  by (auto simp: haproxyUpdate_apply_def split: prod.splits)

lemma decisive_apply:
  assumes "haproxyUpdate_apply w i cfg = Some r"
  shows "filter decisive (events r) = applied w i cfg"
proof (cases "updated w")
  case True
  with assms quiet_check[of w i cfg] show ?thesis
    by (auto simp: haproxyUpdate_apply_def applied_def updateSuccessful_def
        split: prod.splits option.splits if_splits)
next
  case False
  with assms decisive_Reload'[of w i r] show ?thesis
    by (auto simp: haproxyUpdate_apply_def applied_def split: if_splits)
qed

lemma final_apply:
  assumes "haproxyUpdate_apply w i cfg = Some r"
  shows "final r = after w i (events r)"
proof (cases "updated w")
  case True
  have "final r = after w i (applied w i cfg)"
    using assms True
    by (auto simp: haproxyUpdate_apply_def applied_def after_def updateSuccessful_def
        split: prod.splits option.splits if_splits)
  with decisive_apply[OF assms] after_filter[of w i "events r"] show ?thesis by simp
next
  case False
  with assms final_Reload'[of w i r] show ?thesis
    by (auto simp: haproxyUpdate_apply_def after_def split: if_splits)
qed

lemma events_prepend: "prepend pre x = Some r \<Longrightarrow> \<exists>r0. x = Some r0 \<and> events r = pre @ events r0 \<and> final r = final r0"
  by (auto simp: prepend_def split: option.splits result.splits)

lemma events_deferred: "deferred f x = Some r \<Longrightarrow> \<exists>r0. x = Some r0 \<and> events r = events r0 @ f (final r0) \<and> final r = final r0"
  by (auto simp: deferred_def split: option.splits result.splits)

lemma prepend_returns: "x = Some r0 \<Longrightarrow> \<exists>r. prepend pre x = Some r"
  by (auto simp: prepend_def split: result.splits)

lemma deferred_returns: "x = Some r0 \<Longrightarrow> \<exists>r. deferred f x = Some r"
  by (auto simp: deferred_def split: result.splits)

lemma body_aborted:
  assumes "\<not> mapsWritten cfg \<or> \<not> configWritten w i cfg"
  shows "\<exists>evs. haproxyUpdate_body w i cfg = Some (Returned () i evs) \<and>
           filter decisive evs =
             (if mapsWritten cfg then filter decisive (orderEndpoints w i) else [])"
proof (cases "mapsWritten cfg")
  case False
  then show ?thesis
    by (auto simp: haproxyUpdate_body_def mapsWritten_def split: option.splits)
next
  case True
  with assms have nw: "\<not> configWritten w i cfg" by simp
  then obtain e where e: "fst (writeConfig w i cfg) = Some e" and c: "\<not> updated w \<or> cmdCnt w > 0"
    by (auto simp: configWritten_def split: if_splits)
  from True e c quiet_writeConfig[of w i cfg] show ?thesis
    by (cases "writeConfig w i cfg")
       (auto simp: haproxyUpdate_body_def mapsWritten_def Let_def quiet_logChanged)
qed

lemma body_applied:
  assumes "mapsWritten cfg" and "configWritten w i cfg"
  shows "\<exists>pre. haproxyUpdate_body w i cfg =
                 prepend pre (deferred logFailedSince (haproxyUpdate_apply w i cfg)) \<and>
           filter decisive pre = filter decisive (orderEndpoints w i)"
proof (cases "\<not> updated w \<or> cmdCnt w > 0")
  case True
  with assms have "fst (writeConfig w i cfg) = None" by (simp add: configWritten_def)
  with True assms(1) quiet_writeConfig[of w i cfg] show ?thesis
    by (cases "writeConfig w i cfg")
       (auto simp: haproxyUpdate_body_def mapsWritten_def Let_def quiet_logChanged
          quiet_updateCertExpiring intro!: exI)
next
  case False
  with assms(1) show ?thesis
    by (auto simp: haproxyUpdate_body_def mapsWritten_def Let_def quiet_logChanged
          quiet_updateCertExpiring intro!: exI)
qed

lemma body_returns:
  assumes "\<not> waitsForever w i"
  shows "\<exists>r. haproxyUpdate_body w i cfg = Some r"
proof (cases "mapsWritten cfg \<and> configWritten w i cfg")
  case False
  with body_aborted[of cfg w i] show ?thesis by auto
next
  case True
  from returns_apply[OF assms, of cfg] obtain r0 where "haproxyUpdate_apply w i cfg = Some r0" by blast
  from deferred_returns[OF this, of logFailedSince] obtain r1 where
    "deferred logFailedSince (haproxyUpdate_apply w i cfg) = Some r1" by blast
  from prepend_returns[OF this] body_applied[of cfg w i] True show ?thesis by metis
qed

lemma body_summary:
  assumes "haproxyUpdate_body w i cfg = Some r"
  shows "filter decisive (events r) =
           (if mapsWritten cfg
            then filter decisive (orderEndpoints w i) @
                 (if configWritten w i cfg then applied w i cfg else [])
            else []) \<and>
         final r = after w i (events r)"
proof (cases "mapsWritten cfg \<and> configWritten w i cfg")
  case False
  with body_aborted[of cfg w i] assms obtain evs where
    r: "r = Returned () i evs" and
    d: "filter decisive evs = (if mapsWritten cfg then filter decisive (orderEndpoints w i) else [])"
    by auto
  have "after w i evs = after w i (filter decisive evs)" by (simp add: after_filter)
  also have "\<dots> = i" unfolding d by (simp add: after_def decisive_orderEndpoints)
  finally show ?thesis using r d False by auto
next
  case True
  with body_applied[of cfg w i] assms obtain pre where
    b: "prepend pre (deferred logFailedSince (haproxyUpdate_apply w i cfg)) = Some r" and
    p: "filter decisive pre = filter decisive (orderEndpoints w i)"
    by auto
  from events_prepend[OF b] obtain r1 where
    r1: "deferred logFailedSince (haproxyUpdate_apply w i cfg) = Some r1"
        "events r = pre @ events r1" "final r = final r1" by blast
  from events_deferred[OF r1(1)] obtain r0 where
    r0: "haproxyUpdate_apply w i cfg = Some r0"
        "events r1 = events r0 @ logFailedSince (final r0)" "final r1 = final r0" by blast
  have d: "filter decisive (events r) = filter decisive (orderEndpoints w i) @ applied w i cfg"
    using r1(2) r0(2) p decisive_apply[OF r0(1)] by (simp add: quiet_logFailedSince)
  have "final r = after w i (events r0)" using r1(3) r0(3) final_apply[OF r0(1)] by simp
  also have "\<dots> = after w i (applied w i cfg)"
    using decisive_apply[OF r0(1)] after_filter[of w i "events r0"] by simp
  also have "\<dots> = after w i (filter decisive (events r))"
    unfolding d by (simp add: after_def decisive_orderEndpoints)
  finally have "final r = after w i (events r)" by (simp only: after_filter)
  with d True show ?thesis by simp
qed

lemma haproxyUpdate_returns:
  assumes "\<not> waitsForever w i"
  shows "\<exists>r. haproxyUpdate w i = Some r"
proof (cases "config i")
  case None
  then show ?thesis by (simp add: haproxyUpdate_def)
next
  case (Some cfg)
  from body_returns[OF assms, of cfg] obtain r0 where "haproxyUpdate_body w i cfg = Some r0" by blast
  from deferred_returns[OF this] Some show ?thesis by (simp add: haproxyUpdate_def)
qed

lemma Update_returns:
  assumes "\<not> waitsForever w i"
  shows "\<exists>r. Update w i = Some r"
  using haproxyUpdate_returns[OF assms] prepend_returns unfolding Update_def by blast

lemma Update_without_config:
  "config i = None \<Longrightarrow> Update w i = Some (Returned () i [])"
  by (simp add: Update_def haproxyUpdate_def acmeUpdate_def prepend_def)

lemma Update_summary:
  assumes "Update w i = Some r"
  shows "filter decisive (events r) = decisions w i \<and> final r = after w i (events r) \<and>
         (config i \<noteq> None \<longrightarrow> (\<exists>pre. events r = pre @ [Config_Commit]))"
proof (cases "config i")
  case None
  with assms Update_without_config[OF None, of w] show ?thesis
    by (auto simp: decisions_def after_def)
next
  case (Some cfg)
  from events_prepend[OF assms[unfolded Update_def]] obtain r1 where
    r1: "haproxyUpdate w i = Some r1" "events r = acmeUpdate w i @ events r1" "final r = final r1"
    by blast
  from r1(1) Some have "deferred (\<lambda>_. [Config_Commit]) (haproxyUpdate_body w i cfg) = Some r1"
    by (simp add: haproxyUpdate_def)
  from events_deferred[OF this] obtain r0 where
    r0: "haproxyUpdate_body w i cfg = Some r0" "events r1 = events r0 @ [Config_Commit]"
        "final r1 = final r0" by blast
  from body_summary[OF r0(1)] have
    d0: "filter decisive (events r0) =
           (if mapsWritten cfg
            then filter decisive (orderEndpoints w i) @
                 (if configWritten w i cfg then applied w i cfg else [])
            else [])" and
    f0: "final r0 = after w i (events r0)" by simp_all
  have d: "filter decisive (events r) = decisions w i"
    using r1(2) r0(2) d0 Some by (simp add: decisions_def quiet_acmeUpdate)
  have "after w i (events r) = after w i (filter decisive (events r))" by (simp add: after_filter)
  also have "\<dots> = after w i (filter decisive (events r0) @ [Config_Commit])"
    using r1(2) r0(2) by (simp add: quiet_acmeUpdate)
  also have "\<dots> = after w i (filter decisive (events r0))" by (simp add: after_def)
  also have "\<dots> = final r0" using f0 by (simp add: after_filter)
  finally have "final r = after w i (events r)" using r1(3) r0(3) by simp
  with d r1(2) r0(2) show ?thesis by auto
qed

lemma count_decisive: "decisive x \<Longrightarrow> count_list (filter decisive evs) x = count_list evs x"
  by (induction evs) auto

lemma mem_decisive: "decisive x \<Longrightarrow> x \<in> set evs \<longleftrightarrow> x \<in> set (filter decisive evs)"
  by simp

lemma reloadReport_members:
  "ev \<in> set (reloadReport w i) \<Longrightarrow> ev = Metrics_UpdateSuccessful True \<or> ev = Metrics_UpdateSuccessful False"
  by (auto simp: reloadReport_def split: option.splits result.splits)

lemma commit_not_applied: "Config_Commit \<notin> set (applied w i cfg)"
  by (auto simp: applied_def dest: reloadReport_members)

lemma reloadReport_success:
  assumes "Metrics_UpdateSuccessful True \<in> set (reloadReport w i)"
  shows "Metrics_UpdateSuccessful False \<notin> set (reloadReport w i) \<and>
         (\<exists>io. reloadHAProxy w i = Some (Returned None i io))"
proof (cases "reloadHAProxy w i")
  case None
  with assms show ?thesis by (simp add: reloadReport_def)
next
  case (Some r0)
  from reloadHAProxy_final[OF Some] have "final r0 = i" by simp
  with Some assms show ?thesis
    by (cases r0) (auto simp: reloadReport_def split: option.splits)
qed

lemma applied_success:
  assumes "Metrics_UpdateSuccessful True \<in> set (applied w i cfg)"
  shows "Metrics_UpdateSuccessful False \<notin> set (applied w i cfg) \<and>
         (Metrics_IncUpdateFull \<in> set (applied w i cfg) \<longrightarrow>
          (\<exists>io. reloadHAProxy w i = Some (Returned None i io)))"
  using assms reloadReport_success[of w i]
  by (auto simp: applied_def split: if_splits dest: reloadReport_members)

lemma decisions_success:
  assumes "Metrics_UpdateSuccessful True \<in> set (decisions w i)"
  shows "Metrics_UpdateSuccessful False \<notin> set (decisions w i) \<and>
         (Metrics_IncUpdateFull \<in> set (decisions w i) \<longrightarrow>
          (\<exists>io. reloadHAProxy w i = Some (Returned None i io)))"
proof (cases "config i")
  case None
  with assms show ?thesis by (simp add: decisions_def)
next
  case (Some cfg)
  with assms have "Metrics_UpdateSuccessful True \<in> set (applied w i cfg)"
    by (auto simp: decisions_def decisive_orderEndpoints split: if_splits)
  from applied_success[OF this] Some show ?thesis
    by (auto simp: decisions_def decisive_orderEndpoints split: if_splits)
qed

lemma AcmeCheck_quiet:
  "final (AcmeCheck w source i) = i \<and> filter decisive (events (AcmeCheck w source i)) = []"
  by (auto simp: AcmeCheck_def acmeEnsureConfig_def Let_def filter_empty_conv acmeAddStorage_def
      split: option.splits)

lemma CalcIdleMetric_quiet:
  "final (CalcIdleMetric w i) = i \<and> filter decisive (events (CalcIdleMetric w i)) = []"
  by (auto simp: CalcIdleMetric_def Let_def split: option.splits sum.splits prod.splits)

lemma final_forget: "final (forget r) = final r" and events_forget: "events (forget r) = events r"
  by (cases r; simp)+

lemma perform_summary:
  assumes "perform c w i = Some r"
  shows "final r = after w i (events r) \<and>
         (Metrics_UpdateSuccessful True \<in> set (events r) \<longrightarrow>
            Metrics_UpdateSuccessful False \<notin> set (events r) \<and>
            (Metrics_IncUpdateFull \<in> set (events r) \<longrightarrow>
             (\<exists>io. reloadHAProxy w i = Some (Returned None i io))))"
proof (cases c)
  case Call_Update
  with assms have u: "Update w i = Some r" by (simp add: perform_def)
  from Update_summary[OF u] have d: "filter decisive (events r) = decisions w i"
    and f: "final r = after w i (events r)" by simp_all
  have m: "\<And>x. decisive x \<Longrightarrow> x \<in> set (events r) \<longleftrightarrow> x \<in> set (decisions w i)"
    using mem_decisive[of _ "events r"] d by simp
  from f decisions_success[of w i] show ?thesis by (auto simp: m)
next
  case Call_Reload
  with assms have u: "Reload w i = Some r" by (simp add: perform_def)
  from decisive_Reload'[OF u] have d: "filter decisive (events r) = Metrics_IncUpdateFull # reloadReport w i" .
  have m: "\<And>x. decisive x \<Longrightarrow> x \<in> set (events r) \<longleftrightarrow> x \<in> set (Metrics_IncUpdateFull # reloadReport w i)"
    using mem_decisive[of _ "events r"] d by simp
  from final_Reload'[OF u] reloadReport_success[of w i] show ?thesis by (auto simp: m)
next
  case (Call_AcmeCheck source)
  with assms have r: "r = forget (AcmeCheck w source i)" by (simp add: perform_def)
  have "\<And>x. decisive x \<Longrightarrow> x \<notin> set (events r)"
    using AcmeCheck_quiet[of w source i] r by (auto simp: events_forget filter_empty_conv)
  then have "Metrics_UpdateSuccessful True \<notin> set (events r)" "Metrics_UpdateSuccessful False \<notin> set (events r)"
    by simp_all
  with r AcmeCheck_quiet[of w source i] show ?thesis by (simp add: final_forget after_def)
next
  case Call_CalcIdleMetric
  with assms have r: "r = CalcIdleMetric w i" by (simp add: perform_def)
  have "\<And>x. decisive x \<Longrightarrow> x \<notin> set (events r)"
    using CalcIdleMetric_quiet[of w i] r by (auto simp: filter_empty_conv)
  then have "Metrics_UpdateSuccessful True \<notin> set (events r)" "Metrics_UpdateSuccessful False \<notin> set (events r)"
    by simp_all
  with r CalcIdleMetric_quiet[of w i] show ?thesis by (simp add: after_def)
qed









text \<open>A tick whose configuration files cannot be written counts one noop and commits.\<close>

lemma noop_acmeUpdate: "Metrics_IncUpdateNoop \<notin> set (acmeUpdate w i)"
  by (auto simp: acmeUpdate_def Let_def acmeEnsureConfig_def acmeAddStorage_def
      acmeRemoveStorage_def split: option.splits if_splits)

lemma noop_logChanged: "Metrics_IncUpdateNoop \<notin> set (logChanged cfg)"
  by (simp add: logChanged_def Let_def)

lemma noop_orderEndpoints: "Metrics_IncUpdateNoop \<notin> set (orderEndpoints w i)"
  by (simp add: orderEndpoints_def)

lemma noop_writeShards: "Metrics_IncUpdateNoop \<notin> set (snd (writeShards w dir n js))"
proof (induction js arbitrary: n)
  case Nil
  show ?case by simp
next
  case (Cons j js)
  from Cons[of "n + 1"] show ?case
    by (cases "writeShards w dir (n + 1) js") (auto simp: Let_def split: option.splits)
qed

lemma noop_writeConfig: "Metrics_IncUpdateNoop \<notin> set (snd (writeConfig w i cfg))"
proof -
  have "Metrics_IncUpdateNoop \<notin>
      set (snd (writeShards w (HAProxyCfgDir (options i)) 0 (Backends_ChangedShards cfg)))"
    by (rule noop_writeShards)
  then show ?thesis
    by (auto simp: writeConfig_def Let_def split: option.splits prod.splits)
qed

lemma Update_not_written:
  assumes "config i = Some cfg" and "mapsWritten cfg" and "\<not> updated w \<or> cmdCnt w > 0"
    and "fst (writeConfig w i cfg) = Some e"
  shows "\<exists>pre. Update w i =
             Some (Returned () i
               (pre @ [Logger Error ''error writing configuration: %v'' [ArgE e],
                       Metrics_IncUpdateNoop, Config_Commit])) \<and>
           Metrics_IncUpdateNoop \<notin> set pre"
proof -
  let ?pre = "acmeUpdate w i @
      [Config_SyncConfig, Config_Shrink, Config_WriteTCPServicesMaps, Config_WriteFrontendMaps,
       Config_WriteBackendMaps, Timer_Tick ''write_maps''] @
      (if \<not> fake (options i) then logChanged cfg else []) @
      [Updater_update] @ orderEndpoints w i @ [Backends_FillSourceIPs] @
      snd (writeConfig w i cfg) @ [Timer_Tick ''write_config'']"
  have "Update w i =
      Some (Returned () i
        (?pre @ [Logger Error ''error writing configuration: %v'' [ArgE e],
                 Metrics_IncUpdateNoop, Config_Commit]))"
    using assms
    by (cases "writeConfig w i cfg")
       (auto simp: Update_def haproxyUpdate_def haproxyUpdate_body_def mapsWritten_def
          prepend_def deferred_def Let_def)
  moreover have "Metrics_IncUpdateNoop \<notin> set ?pre"
    using noop_acmeUpdate[of w i] noop_logChanged[of cfg] noop_orderEndpoints[of w i]
      noop_writeConfig[of w i cfg]
    by auto
  ultimately show ?thesis by blast
qed


lemma reloadAttempted_iff:
  assumes "Update w i = Some r"
  shows "Metrics_IncUpdateFull \<in> set (events r) \<longleftrightarrow> reloadAttempted Call_Update w i"
proof -
  from Update_summary[OF assms] have d: "filter decisive (events r) = decisions w i" by simp
  have "Metrics_IncUpdateFull \<in> set (events r) \<longleftrightarrow> Metrics_IncUpdateFull \<in> set (decisions w i)"
    using mem_decisive[of Metrics_IncUpdateFull "events r"] d by simp
  also have "\<dots> \<longleftrightarrow> reloadAttempted Call_Update w i"
    by (auto simp: decisions_def applied_def reloadAttempted_def decisive_orderEndpoints
        split: option.splits if_splits dest: reloadReport_members)
  finally show ?thesis .
qed




text \<open>
  A tick that does not end has invoked the synchronous reload, which is waiting for the
  external haproxy.
\<close>

lemma apply_never:
  "haproxyUpdate_apply w i cfg = None \<Longrightarrow>
   \<not> updated w \<and> ReloadQueue (options i) = None \<and> Reload w i = None"
  by (auto simp: haproxyUpdate_apply_def split: if_splits prod.splits)

lemma prepend_never: "prepend pre x = None \<Longrightarrow> x = None"
  by (auto simp: prepend_def split: option.splits result.splits)

lemma deferred_never: "deferred f x = None \<Longrightarrow> x = None"
  by (auto simp: deferred_def split: option.splits result.splits)

lemma Update_never:
  assumes "Update w i = None"
  shows "waitsForever w i \<and> \<not> updated w \<and> ReloadQueue (options i) = None"
proof -
  from assms have h: "haproxyUpdate w i = None" by (auto simp: Update_def dest: prepend_never)
  then obtain cfg where cfg: "config i = Some cfg"
    by (cases "config i") (auto simp: haproxyUpdate_def)
  with h have b: "haproxyUpdate_body w i cfg = None"
    by (auto simp: haproxyUpdate_def dest: deferred_never)
  with body_aborted[of cfg w i] have g: "mapsWritten cfg" "configWritten w i cfg" by auto
  from body_applied[OF g] obtain pre where
    "haproxyUpdate_body w i cfg = prepend pre (deferred logFailedSince (haproxyUpdate_apply w i cfg))"
    by blast
  with b have "prepend pre (deferred logFailedSince (haproxyUpdate_apply w i cfg)) = None" by simp
  then have "haproxyUpdate_apply w i cfg = None"
    by (blast dest: prepend_never deferred_never)
  from apply_never[OF this] Reload_returns[of w i] show ?thesis by auto
qed

text \<open>
  A configuration is attached whenever \<open>up\<close> is set: it holds when the instance is
  created, and every call that returns keeps it. A call that panics need not: a faked
  \<^verbatim>\<open>Reload\<close> on an instance without configuration sets \<open>up\<close> before it panics.
\<close>

lemma attached_when_up:
  assumes "perform c w i = Some (Returned u j evs)" and "up i \<longrightarrow> config i \<noteq> None"
  shows "up j \<longrightarrow> config j \<noteq> None"
proof (cases "config i")
  case (Some cfg)
  from perform_summary[OF assms(1)] have "config j = config i"
    by (auto simp: after_def split: if_splits)
  with Some show ?thesis by simp
next
  case None
  with assms(2) have nu: "\<not> up i" by simp
  have "\<not> up j"
  proof
    assume "up j"
    with nu perform_summary[OF assms(1)] have
      m: "Metrics_IncUpdateFull \<in> set evs" "Metrics_UpdateSuccessful True \<in> set evs"
      by (auto simp: after_def split: if_splits)
    show False
    proof (cases c)
      case Call_Update
      with assms(1) None m show False by (simp add: perform_def Update_without_config)
    next
      case Call_Reload
      with assms(1) have "Reload w i = Some (Returned u j evs)" by (simp add: perform_def)
      then show False using None m(2)
        by (cases rule: Reload_cases) (auto dest: isReloadIO_not(2))
    next
      case (Call_AcmeCheck source)
      with assms(1) AcmeCheck_quiet[of w source i] m(1) show False
        by (cases "AcmeCheck w source i") (auto simp: perform_def filter_empty_conv)
    next
      case Call_CalcIdleMetric
      with assms(1) CalcIdleMetric_quiet[of w i] m(1) show False
        by (auto simp: perform_def filter_empty_conv)
    qed
  qed
  then show ?thesis by simp
qed

lemma attached_at_start: "up (CreateInstance opts) \<longrightarrow> config (CreateInstance opts) \<noteq> None"
  by (simp add: CreateInstance_def)

lemma attached_Config_get: "config (snd (Config_get created i)) \<noteq> None"
  by (simp add: Config_get_def split: option.splits)

section \<open>Properties of the orchestrator\<close>

text \<open>
  In what follows a synchronous reload is recognised by \<open>Metrics_IncUpdateFull\<close>, the
  first thing \<^verbatim>\<open>Reload\<close> does and done nowhere else, and a reload request by
  \<open>ReloadQueue_Notify\<close>. A tick is a call of \<^verbatim>\<open>Update\<close>. The hypothesis
  \<open>\<not> waitsForever w i\<close> excludes only the tick that reaches the first-run wait of the
  external reload and stays in it for ever: such a tick never ends, every other one does
  (\<open>Update_returns\<close>, \<open>Update_never\<close>, \<open>Reload_returns_iff\<close>).
\<close>

text \<open>
  C1 (as amended). In every tick in which the dynamic updater reports
  \<open>updated = False\<close> (a configuration is attached and the three maps were written, so
  the updater ran): when the configuration files are then written without error, exactly
  one of the two happens: with no reload queue \<^verbatim>\<open>Reload\<close> is invoked, once, and
  nothing is enqueued; with a reload queue one request is enqueued and \<^verbatim>\<open>Reload\<close>
  is not invoked. When writing the configuration files fails, the tick is counted as a
  noop, once, and neither happens.
\<close>

theorem reload_or_enqueue:
  assumes "config i = Some cfg" and "mapsWritten cfg" and "\<not> updated w"
    and "\<not> waitsForever w i"
  shows "\<exists>r. Update w i = Some r \<and>
           (if fst (writeConfig w i cfg) = None
            then (if ReloadQueue (options i) = None
                  then count_list (events r) Metrics_IncUpdateFull = 1 \<and>
                       ReloadQueue_Notify \<notin> set (events r)
                  else count_list (events r) ReloadQueue_Notify = 1 \<and>
                       Metrics_IncUpdateFull \<notin> set (events r))
            else Metrics_IncUpdateFull \<notin> set (events r) \<and>
                 ReloadQueue_Notify \<notin> set (events r) \<and>
                 count_list (events r) Metrics_IncUpdateNoop = 1)"
proof -
  from Update_returns[OF assms(4)] obtain r where r: "Update w i = Some r" by blast
  from Update_summary[OF r] have d: "filter decisive (events r) = decisions w i" by simp
  have c: "\<And>x. decisive x \<Longrightarrow> count_list (events r) x = count_list (decisions w i) x"
    using count_decisive[of _ "events r"] d by simp
  have m: "\<And>x. decisive x \<Longrightarrow> x \<in> set (events r) \<longleftrightarrow> x \<in> set (decisions w i)"
    using mem_decisive[of _ "events r"] d by simp
  show ?thesis
  proof (cases "fst (writeConfig w i cfg)")
    case None
    have "decisions w i = filter decisive (orderEndpoints w i) @
        (if ReloadQueue (options i) \<noteq> None then [ReloadQueue_Notify]
         else Metrics_IncUpdateFull # reloadReport w i) @ [Config_Commit]"
      using assms(1-3) None by (simp add: decisions_def configWritten_def applied_def)
    moreover have "Metrics_IncUpdateFull \<notin> set (reloadReport w i)"
      "ReloadQueue_Notify \<notin> set (reloadReport w i)"
      by (auto dest: reloadReport_members)
    ultimately have
      "if ReloadQueue (options i) = None
       then count_list (decisions w i) Metrics_IncUpdateFull = 1 \<and>
            ReloadQueue_Notify \<notin> set (decisions w i)
       else count_list (decisions w i) ReloadQueue_Notify = 1 \<and>
            Metrics_IncUpdateFull \<notin> set (decisions w i)"
      by (auto simp: decisive_orderEndpoints count_list_0_iff)
    with r c m None show ?thesis by auto
  next
    case (Some e)
    have "decisions w i = filter decisive (orderEndpoints w i) @ [Config_Commit]"
      using assms(1-3) Some by (simp add: decisions_def configWritten_def)
    then have n: "Metrics_IncUpdateFull \<notin> set (decisions w i)"
      "ReloadQueue_Notify \<notin> set (decisions w i)"
      by (auto simp: decisive_orderEndpoints)
    from Update_not_written[OF assms(1,2) _ Some] assms(3) r obtain pre where
      "events r = pre @ [Logger Error ''error writing configuration: %v'' [ArgE e],
                         Metrics_IncUpdateNoop, Config_Commit]"
      and "Metrics_IncUpdateNoop \<notin> set pre" by auto
    then have "count_list (events r) Metrics_IncUpdateNoop = 1"
      by (simp add: count_list_0_iff)
    with r n m Some show ?thesis by auto
  qed
qed

theorem reload_or_enqueue_witness:
  "config example_instance = Some example_config \<and> mapsWritten example_config \<and>
   \<not> updated example_world \<and> \<not> waitsForever example_world example_instance \<and>
   fst (writeConfig example_world example_instance example_config) = None \<and>
   ReloadQueue (options example_instance) = None \<and>
   (\<exists>r. Update example_world example_instance = Some r \<and>
        count_list (events r) Metrics_IncUpdateFull = 1 \<and> ReloadQueue_Notify \<notin> set (events r))"
proof -
  have h1: "config example_instance = Some example_config" by (simp add: example_instance_def)
  have h2: "mapsWritten example_config" by code_simp
  have h3: "\<not> updated example_world" by code_simp
  have h4: "\<not> waitsForever example_world example_instance"
    by (simp add: waitsForever_def example_instance_def CreateInstance_def example_options_def
        example_config_def)
  have q1: "fst (writeConfig example_world example_instance example_config) = None" by code_simp
  have q2: "ReloadQueue (options example_instance) = None" by code_simp
  from reload_or_enqueue[OF h1 h2 h3 h4] q1 q2 h1 h2 h3 h4 show ?thesis by auto
qed

text \<open>
  C1 as it was stated fails: a tick in which the updater reports \<open>updated = False\<close>
  and the modsecurity template then cannot be written is counted as a noop and returns;
  it neither reloads nor enqueues.
\<close>

theorem no_reload_when_config_is_not_written:
  "updated (example_world\<lparr>modsecTmplWrite := Some no_space\<rparr>) = False \<and>
   Update (example_world\<lparr>modsecTmplWrite := Some no_space\<rparr>) example_instance \<noteq> None \<and>
   Updater_update \<in> set (events (the (Update (example_world\<lparr>modsecTmplWrite := Some no_space\<rparr>) example_instance))) \<and>
   Metrics_IncUpdateFull \<notin> set (events (the (Update (example_world\<lparr>modsecTmplWrite := Some no_space\<rparr>) example_instance))) \<and>
   ReloadQueue_Notify \<notin> set (events (the (Update (example_world\<lparr>modsecTmplWrite := Some no_space\<rparr>) example_instance))) \<and>
   count_list (events (the (Update (example_world\<lparr>modsecTmplWrite := Some no_space\<rparr>) example_instance)))
     Metrics_IncUpdateNoop = 1"
  by code_simp

text \<open>
  C2. Every tick that starts with a configuration attached ends with exactly one
  \<^verbatim>\<open>Commit\<close> of the Config collaborator, as its last event, whatever the answers of
  the collaborators: an abort at a map, at the configuration files, a failed reload or
  a panic do not change it.
\<close>

theorem Update_commits_once_at_the_end:
  assumes "config i \<noteq> None" and "\<not> waitsForever w i"
  shows "\<exists>r pre. Update w i = Some r \<and> events r = pre @ [Config_Commit] \<and> Config_Commit \<notin> set pre"
proof -
  from assms(1) obtain cfg where cfg: "config i = Some cfg" by auto
  from Update_returns[OF assms(2)] obtain r where r: "Update w i = Some r" by blast
  from Update_summary[OF r] assms(1) obtain pre where
    d: "filter decisive (events r) = decisions w i" and pre: "events r = pre @ [Config_Commit]"
    by auto
  from d pre cfg have "Config_Commit \<notin> set (filter decisive pre)"
    by (auto simp: decisions_def decisive_orderEndpoints commit_not_applied split: if_splits)
  then have "Config_Commit \<notin> set pre" by simp
  with r pre show ?thesis by blast
qed

theorem Update_commits_once_at_the_end_witness:
  "config (example_instance\<lparr>config := Some (example_config\<lparr>WriteFrontendMaps := Some no_space\<rparr>)\<rparr>) \<noteq> None \<and>
   \<not> waitsForever example_world
       (example_instance\<lparr>config := Some (example_config\<lparr>WriteFrontendMaps := Some no_space\<rparr>)\<rparr>) \<and>
   (\<exists>r pre.
      Update example_world
        (example_instance\<lparr>config := Some (example_config\<lparr>WriteFrontendMaps := Some no_space\<rparr>)\<rparr>) = Some r \<and>
      events r = pre @ [Config_Commit] \<and> Config_Commit \<notin> set pre)"
proof -
  let ?i = "example_instance\<lparr>config := Some (example_config\<lparr>WriteFrontendMaps := Some no_space\<rparr>)\<rparr>"
  have h1: "config ?i \<noteq> None" by simp
  have h2: "\<not> waitsForever example_world ?i"
    by (simp add: waitsForever_def example_instance_def CreateInstance_def example_options_def
        example_config_def)
  from Update_commits_once_at_the_end[OF h1 h2] h1 h2 show ?thesis by blast
qed



text \<open>
  C4. In an external reload, when the \<^verbatim>\<open>reload\<close> command sent over the master socket
  succeeds and the following \<^verbatim>\<open>show proc\<close> lists no worker, the call returns an error:
  whenever the first-run wait ends, \<^verbatim>\<open>reloadExternal\<close> returns, what it returns is an
  error, and if the reload command was sent at all that error is the one saying that
  the external haproxy was not successfully reloaded. (When the wait is cancelled the
  command is never sent, and the error is the one of the cancellation.)
\<close>

theorem reloadExternal_no_workers:
  assumes sent: "masterReload w = None"
    and empty: "showProcs w = Inr []"
    and ends: "up i \<or> (\<exists>k. showProcWait w k = None \<or> stopCh w k)"
  shows "\<exists>e evs. reloadExternal w i cfg = Some (Some e, evs) \<and>
           (HAProxyCommand (MasterSocket (External (Global cfg))) ''reload'' \<in> set evs \<longrightarrow>
            e = Errorf ''external haproxy was not successfully reloaded'' [])"
proof (cases "up i")
  case True
  with reloadExternal_reload_empty[OF sent empty, of cfg "[]"] show ?thesis
    by (cases "reloadExternal_reload w cfg []") (auto simp: reloadExternal_def)
next
  case False
  let ?s = "MasterSocket (External (Global cfg))"
  let ?e0 = "[Logger Info ''waiting for the external haproxy...'' []]"
  from False ends obtain k where "showProcWait w (0 + k) = None \<or> stopCh w (0 + k)" by auto
  from waitExternal_returns[OF this] obtain y0 where y0: "waitExternal w ?s 0 ?e0 = Some y0"
    by blast
  from waitExternal_steps[OF y0] obtain new where
    new: "snd y0 = ?e0 @ new" "list_all isWaitStep new"
    and res: "fst y0 = None \<or> fst y0 = Some (Errorf ''received sigterm'' [])" by blast
  show ?thesis
  proof (cases "fst y0")
    case None
    with y0 False have "reloadExternal w i cfg = Some (reloadExternal_reload w cfg (snd y0))"
      by (cases y0) (auto simp: reloadExternal_def Let_def)
    with reloadExternal_reload_empty[OF sent empty, of cfg "snd y0"] show ?thesis
      by (cases "reloadExternal_reload w cfg (snd y0)") auto
  next
    case (Some e)
    with y0 False have "reloadExternal w i cfg = Some (Some e, snd y0)"
      by (cases y0) (auto simp: reloadExternal_def Let_def)
    moreover from new isWaitStep_noreload[OF new(2), of ?s]
    have "HAProxyCommand ?s ''reload'' \<notin> set (snd y0)" by simp
    ultimately show ?thesis by simp
  qed
qed

theorem reloadExternal_no_workers_witness:
  "masterReload (example_world\<lparr>showProcs := Inr []\<rparr>) = None \<and>
   showProcs (example_world\<lparr>showProcs := Inr []\<rparr>) = Inr [] \<and>
   showProcWait (example_world\<lparr>showProcs := Inr []\<rparr>) 0 = None \<and>
   HAProxyCommand (MasterSocket (External (Global external_config))) ''reload''
     \<in> set (snd (the (reloadExternal (example_world\<lparr>showProcs := Inr []\<rparr>) external_instance external_config))) \<and>
   fst (the (reloadExternal (example_world\<lparr>showProcs := Inr []\<rparr>) external_instance external_config))
     = Some (Errorf ''external haproxy was not successfully reloaded'' [])"
proof -
  have 1: "masterReload (example_world\<lparr>showProcs := Inr []\<rparr>) = None"
    by (simp add: example_world_def)
  have 2: "showProcs (example_world\<lparr>showProcs := Inr []\<rparr>) = Inr []"
    by simp
  have 3: "showProcWait (example_world\<lparr>showProcs := Inr []\<rparr>) 0 = None"
    by (simp add: example_world_def)
  then have 4: "up external_instance \<or>
      (\<exists>k. showProcWait (example_world\<lparr>showProcs := Inr []\<rparr>) k = None \<or>
           stopCh (example_world\<lparr>showProcs := Inr []\<rparr>) k)"
    by blast
  have 5: "HAProxyCommand (MasterSocket (External (Global external_config))) ''reload''
     \<in> set (snd (the (reloadExternal (example_world\<lparr>showProcs := Inr []\<rparr>) external_instance external_config)))"
    by (simp add: reloadExternal_def reloadExternal_reload_def waitExternal.simps example_world_def
        external_instance_def external_config_def example_config_def CreateInstance_def Let_def)
  from reloadExternal_no_workers[OF 1 2 4, of external_config] 5 1 2 3 show ?thesis
    by auto
qed

text \<open>
  C5 (as amended). In every tick that reaches the ordering of the endpoints (a
  configuration is attached and the three maps were written): when the configured order
  is not \<^verbatim>\<open>random\<close>, the changed endpoints are sorted by the configured criterion,
  once, and nothing is shuffled; when it is \<^verbatim>\<open>random\<close>, nothing is sorted, and all
  endpoints are shuffled once if a reload is required (\<open>updated = False\<close>) and not at
  all if it is not (\<open>updated = True\<close>).
\<close>

theorem endpoint_order:
  assumes "config i = Some cfg" and "mapsWritten cfg" and "\<not> waitsForever w i"
  shows "\<exists>r. Update w i = Some r \<and>
           (if SortEndpointsBy (options i) \<noteq> ''random''
            then count_list (events r) (Backends_SortChangedEndpoints (SortEndpointsBy (options i))) = 1 \<and>
                 Backends_ShuffleAllEndpoints \<notin> set (events r)
            else count_list (events r) Backends_ShuffleAllEndpoints = (if updated w then 0 else 1) \<and>
                 (\<forall>c. Backends_SortChangedEndpoints c \<notin> set (events r)))"
proof -
  from Update_returns[OF assms(3)] obtain r where r: "Update w i = Some r" by blast
  from Update_summary[OF r] have d: "filter decisive (events r) = decisions w i" by simp
  have c: "\<And>x. decisive x \<Longrightarrow> count_list (events r) x = count_list (decisions w i) x"
    using count_decisive[of _ "events r"] d by simp
  have m: "\<And>x. decisive x \<Longrightarrow> x \<in> set (events r) \<longleftrightarrow> x \<in> set (decisions w i)"
    using mem_decisive[of _ "events r"] d by simp
  have a: "\<And>x. x \<in> set (applied w i cfg) \<Longrightarrow>
      x \<noteq> Backends_ShuffleAllEndpoints \<and> (\<forall>c. x \<noteq> Backends_SortChangedEndpoints c)"
    by (auto simp: applied_def split: if_splits dest: reloadReport_members)
  have "if SortEndpointsBy (options i) \<noteq> ''random''
            then count_list (decisions w i) (Backends_SortChangedEndpoints (SortEndpointsBy (options i))) = 1 \<and>
                 Backends_ShuffleAllEndpoints \<notin> set (decisions w i)
            else count_list (decisions w i) Backends_ShuffleAllEndpoints = (if updated w then 0 else 1) \<and>
                 (\<forall>c. Backends_SortChangedEndpoints c \<notin> set (decisions w i))"
    using assms(1,2) a
    by (auto simp: decisions_def decisive_orderEndpoints count_list_0_iff)
  with r c m show ?thesis by auto
qed

theorem endpoint_order_witness:
  "config random_instance = Some example_config \<and> mapsWritten example_config \<and>
   \<not> waitsForever example_world random_instance \<and>
   SortEndpointsBy (options random_instance) = ''random'' \<and> \<not> updated example_world \<and>
   (\<exists>r. Update example_world random_instance = Some r \<and>
        count_list (events r) Backends_ShuffleAllEndpoints = 1 \<and>
        (\<forall>c. Backends_SortChangedEndpoints c \<notin> set (events r)))"
proof -
  have h1: "config random_instance = Some example_config"
    by (simp add: random_instance_def example_instance_def)
  have h2: "mapsWritten example_config" by code_simp
  have h3: "\<not> waitsForever example_world random_instance"
    by (simp add: waitsForever_def random_instance_def example_instance_def CreateInstance_def
        example_options_def example_config_def)
  have q1: "SortEndpointsBy (options random_instance) = ''random''" by code_simp
  have q2: "\<not> updated example_world" by code_simp
  from endpoint_order[OF h1 h2 h3] q1 q2 h1 h2 h3 show ?thesis by auto
qed

text \<open>
  C5 as it was stated fails: with the order \<^verbatim>\<open>random\<close> and \<open>updated = True\<close> the
  tick shuffles nothing. The source shuffles only when it needs to reload.
\<close>

theorem random_order_is_not_shuffled_without_reload:
  "SortEndpointsBy (options random_instance) = ''random'' \<and>
   updated (example_world\<lparr>updated := True\<rparr>) = True \<and>
   Update (example_world\<lparr>updated := True\<rparr>) random_instance \<noteq> None \<and>
   Updater_update \<in> set (events (the (Update (example_world\<lparr>updated := True\<rparr>) random_instance))) \<and>
   Backends_ShuffleAllEndpoints \<notin> set (events (the (Update (example_world\<lparr>updated := True\<rparr>) random_instance)))"
  by code_simp

text \<open>
  C6. When the replica is not the leader, \<^verbatim>\<open>acmeUpdate\<close> adds nothing to the ACME
  queue and removes nothing from it; the only thing it can do is log the notice of the
  skipped update, and it logs it only if a configuration is attached whose storages
  report to have been updated.
\<close>

theorem acmeUpdate_not_leader:
  assumes "\<not> IsLeader w"
  shows "(\<forall>ev \<in> set (acmeUpdate w i). \<not> isAcmeQueue ev) \<and>
         set (acmeUpdate w i) \<subseteq> {skipNotice w} \<and>
         (skipNotice w \<in> set (acmeUpdate w i) \<longrightarrow>
            (\<exists>cfg. config i = Some cfg \<and> Updated (Storages (AcmeData cfg))))"
proof (cases "config i")
  case None
  then show ?thesis by (simp add: acmeUpdate_def)
next
  case (Some cfg)
  with assms show ?thesis
    by (auto simp: acmeUpdate_def skipNotice_def Let_def split: if_splits)
qed

theorem acmeUpdate_not_leader_witness:
  "\<not> IsLeader (example_world\<lparr>IsLeader := False\<rparr>) \<and>
   BuildAcmeStoragesAdd (Storages (AcmeData example_config)) =
     [''crt1,,a.example.com'', ''crt2,,b.example.com''] \<and>
   filter isAcmeQueue (acmeUpdate (example_world\<lparr>IsLeader := False\<rparr>) example_instance) = [] \<and>
   acmeUpdate (example_world\<lparr>IsLeader := False\<rparr>) example_instance =
     [skipNotice (example_world\<lparr>IsLeader := False\<rparr>)] \<and>
   Updated (Storages (AcmeData example_config))"
proof -
  have h: "\<not> IsLeader (example_world\<lparr>IsLeader := False\<rparr>)" by simp
  from acmeUpdate_not_leader[OF h, of example_instance]
  have 1: "filter isAcmeQueue (acmeUpdate (example_world\<lparr>IsLeader := False\<rparr>) example_instance) = []"
    by (simp add: filter_empty_conv)
  have 2: "BuildAcmeStoragesAdd (Storages (AcmeData example_config)) =
     [''crt1,,a.example.com'', ''crt2,,b.example.com'']" by code_simp
  have 3: "acmeUpdate (example_world\<lparr>IsLeader := False\<rparr>) example_instance =
     [skipNotice (example_world\<lparr>IsLeader := False\<rparr>)]" by code_simp
  have 4: "Updated (Storages (AcmeData example_config))" by code_simp
  from h 1 2 3 4 show ?thesis by simp
qed







text \<open>
  C9. No call of \<^verbatim>\<open>Update\<close>, \<^verbatim>\<open>Reload\<close>, \<^verbatim>\<open>AcmeCheck\<close> or
  \<^verbatim>\<open>CalcIdleMetric\<close> that ends, by return or by panic, turns \<open>up\<close> from true to
  false; and when a call turns it from false to true, \<^verbatim>\<open>reloadHAProxy\<close> has
  returned without error in that call.
\<close>

theorem up_is_monotone:
  assumes "perform c w i = Some r"
  shows "(up i \<longrightarrow> up (final r)) \<and>
         (\<not> up i \<and> up (final r) \<longrightarrow> (\<exists>io. reloadHAProxy w i = Some (Returned None i io)))"
  using perform_summary[OF assms] by (auto simp: after_def split: if_splits)

theorem up_is_monotone_witness:
  "perform Call_Reload example_world example_instance =
     Some (the (perform Call_Reload example_world example_instance)) \<and>
   \<not> up example_instance \<and>
   up (final (the (perform Call_Reload example_world example_instance))) \<and>
   (\<exists>io. reloadHAProxy example_world example_instance = Some (Returned None example_instance io))"
proof -
  have h: "perform Call_Reload example_world example_instance =
     Some (the (perform Call_Reload example_world example_instance))" by code_simp
  have a: "\<not> up example_instance" by code_simp
  have b: "up (final (the (perform Call_Reload example_world example_instance)))" by code_simp
  from up_is_monotone[OF h] a b h show ?thesis by blast
qed

text \<open>
  C10. Every call of \<^verbatim>\<open>Reload\<close> increments the full-reload metric exactly once, and
  does so before the reload is attempted: the events of the call are the increment,
  then the events of \<^verbatim>\<open>reloadHAProxy\<close>, then the rest, and the increment occurs nowhere
  else. This holds whether the attempt then succeeds, fails or panics, so the counter
  counts attempts. The hypothesis excludes only the call that stays in the first-run
  wait of the external reload for ever; every other call ends.
\<close>

theorem Reload_counts_every_attempt:
  assumes "\<not> waitsForever w i"
  shows "\<exists>r r0 tail. Reload w i = Some r \<and> reloadHAProxy w i = Some r0 \<and>
           events r = Metrics_IncUpdateFull # events r0 @ tail \<and>
           Metrics_IncUpdateFull \<notin> set (events r0 @ tail)"
proof -
  from Reload_returns[OF assms] obtain r where r: "Reload w i = Some r" by blast
  from r have "\<exists>r0 tail. reloadHAProxy w i = Some r0 \<and>
      events r = Metrics_IncUpdateFull # events r0 @ tail \<and>
      Metrics_IncUpdateFull \<notin> set (events r0 @ tail)"
    by (cases rule: Reload_cases) (auto dest: isReloadIO_not(1))
  with r show ?thesis by blast
qed

theorem Reload_counts_every_attempt_witness:
  "\<not> waitsForever (example_world\<lparr>reloadOutput := (''boom'', Some exit_status_1)\<rparr>) example_instance \<and>
   (\<exists>r r0 tail.
      Reload (example_world\<lparr>reloadOutput := (''boom'', Some exit_status_1)\<rparr>) example_instance = Some r \<and>
      reloadHAProxy (example_world\<lparr>reloadOutput := (''boom'', Some exit_status_1)\<rparr>) example_instance = Some r0 \<and>
      events r = Metrics_IncUpdateFull # events r0 @ tail \<and>
      Metrics_IncUpdateFull \<notin> set (events r0 @ tail))"
proof -
  have h: "\<not> waitsForever (example_world\<lparr>reloadOutput := (''boom'', Some exit_status_1)\<rparr>) example_instance"
    by (simp add: waitsForever_def example_instance_def CreateInstance_def example_options_def
        example_config_def)
  from Reload_counts_every_attempt[OF h] h show ?thesis by blast
qed

end
